theory Spec2Isabelle
  imports Complex_Main "HOL-Library.Monad_Syntax"
begin

section \<open>Floating-point values\<close>

text \<open>
  Tensor elements are IEEE floating-point numbers. The model keeps what the claims
  are about, the special values: an element is a finite real, an infinity or NaN.
  Arithmetic on finite values is exact (no rounding, no overflow) and zero is unsigned.
\<close>

datatype fl = Fin real | PInf | NInf | NaN

datatype dtype = Float16 | Float32 | Float64

fun is_finite :: "fl \<Rightarrow> bool" where
  "is_finite (Fin a) = True"
| "is_finite x = False"

fun fneg :: "fl \<Rightarrow> fl" where
  "fneg (Fin a) = Fin (- a)"
| "fneg PInf = NInf"
| "fneg NInf = PInf"
| "fneg NaN = NaN"

fun fadd :: "fl \<Rightarrow> fl \<Rightarrow> fl" where
  "fadd NaN y = NaN"
| "fadd x NaN = NaN"
| "fadd (Fin a) (Fin b) = Fin (a + b)"
| "fadd PInf NInf = NaN"
| "fadd NInf PInf = NaN"
| "fadd PInf y = PInf"
| "fadd x PInf = PInf"
| "fadd NInf y = NInf"
| "fadd x NInf = NInf"

definition fsub :: "fl \<Rightarrow> fl \<Rightarrow> fl" where
  "fsub x y = fadd x (fneg y)"

fun fmul :: "fl \<Rightarrow> fl \<Rightarrow> fl" where
  "fmul NaN y = NaN"
| "fmul x NaN = NaN"
| "fmul (Fin a) (Fin b) = Fin (a * b)"
| "fmul (Fin a) PInf = (if a = 0 then NaN else if 0 < a then PInf else NInf)"
| "fmul (Fin a) NInf = (if a = 0 then NaN else if 0 < a then NInf else PInf)"
| "fmul PInf (Fin b) = (if b = 0 then NaN else if 0 < b then PInf else NInf)"
| "fmul NInf (Fin b) = (if b = 0 then NaN else if 0 < b then NInf else PInf)"
| "fmul PInf PInf = PInf"
| "fmul PInf NInf = NInf"
| "fmul NInf PInf = NInf"
| "fmul NInf NInf = PInf"

text \<open>The operator \<^verbatim>\<open>/\<close> on tensors: a zero divisor gives an infinity or NaN.\<close>

fun fdiv :: "fl \<Rightarrow> fl \<Rightarrow> fl" where
  "fdiv NaN y = NaN"
| "fdiv x NaN = NaN"
| "fdiv (Fin a) (Fin b) =
     (if b = 0 then (if a = 0 then NaN else if 0 < a then PInf else NInf)
      else Fin (a / b))"
| "fdiv (Fin a) PInf = Fin 0"
| "fdiv (Fin a) NInf = Fin 0"
| "fdiv PInf (Fin b) = (if 0 \<le> b then PInf else NInf)"
| "fdiv NInf (Fin b) = (if 0 \<le> b then NInf else PInf)"
| "fdiv PInf PInf = NaN"
| "fdiv PInf NInf = NaN"
| "fdiv NInf PInf = NaN"
| "fdiv NInf NInf = NaN"

text \<open>\<^verbatim>\<open>tf.math.divide_no_nan\<close>: 0 where the divisor is zero, whatever the dividend.\<close>

definition divide_no_nan :: "fl \<Rightarrow> fl \<Rightarrow> fl" where
  "divide_no_nan x y = (if y = Fin 0 then Fin 0 else fdiv x y)"

fun fsqrt :: "fl \<Rightarrow> fl" where
  "fsqrt (Fin a) = (if a < 0 then NaN else Fin (sqrt a))"
| "fsqrt PInf = PInf"
| "fsqrt NInf = NaN"
| "fsqrt NaN = NaN"

fun flog :: "fl \<Rightarrow> fl" where
  "flog (Fin a) = (if a < 0 then NaN else if a = 0 then NInf else Fin (ln a))"
| "flog PInf = PInf"
| "flog NInf = NaN"
| "flog NaN = NaN"

fun fexp :: "fl \<Rightarrow> fl" where
  "fexp (Fin a) = Fin (exp a)"
| "fexp PInf = PInf"
| "fexp NInf = Fin 0"
| "fexp NaN = NaN"

fun fabs :: "fl \<Rightarrow> fl" where
  "fabs (Fin a) = Fin \<bar>a\<bar>"
| "fabs PInf = PInf"
| "fabs NInf = PInf"
| "fabs NaN = NaN"

text \<open>Comparisons with NaN are false.\<close>

fun fless :: "fl \<Rightarrow> fl \<Rightarrow> bool" where
  "fless NaN y = False"
| "fless x NaN = False"
| "fless (Fin a) (Fin b) = (a < b)"
| "fless x NInf = False"
| "fless PInf y = False"
| "fless NInf y = True"
| "fless x PInf = True"

fun fle :: "fl \<Rightarrow> fl \<Rightarrow> bool" where
  "fle NaN y = False"
| "fle x NaN = False"
| "fle (Fin a) (Fin b) = (a \<le> b)"
| "fle NInf y = True"
| "fle x PInf = True"
| "fle PInf y = False"
| "fle x NInf = False"

text \<open>\<^verbatim>\<open>tf.math.minimum(x, y)\<close> is \<^verbatim>\<open>x < y ? x : y\<close>.\<close>

definition fminimum :: "fl \<Rightarrow> fl \<Rightarrow> fl" where
  "fminimum x y = (if fless x y then x else y)"

text \<open>The maximum of two elements in a reduction: a NaN on either side gives NaN.\<close>

definition fmaximum :: "fl \<Rightarrow> fl \<Rightarrow> fl" where
  "fmaximum x y = (if x = NaN \<or> y = NaN then NaN else if fless x y then y else x)"

text \<open>The error function, by its power series; \<^verbatim>\<open>tf.math.erf\<close> on the special values.\<close>

definition erf :: "real \<Rightarrow> real" where
  "erf x = 2 / sqrt pi * (\<Sum>n. (- 1) ^ n * x ^ (2 * n + 1) / (fact n * real (2 * n + 1)))"

fun ferf :: "fl \<Rightarrow> fl" where
  "ferf (Fin a) = Fin (erf a)"
| "ferf PInf = Fin 1"
| "ferf NInf = Fin (- 1)"
| "ferf NaN = NaN"

section \<open>Probability kernels\<close>

definition SQRT_2 :: fl where
  "SQRT_2 = Fin (sqrt 2)"

text \<open>The kernels on a single element (a rank-0 call of the source functions).\<close>

definition standard_normal_cdf :: "fl \<Rightarrow> fl" where
  "standard_normal_cdf x = fdiv (fadd (ferf (fdiv x SQRT_2)) (Fin 1)) (Fin 2)"

definition d_plus :: "fl \<Rightarrow> fl \<Rightarrow> fl \<Rightarrow> fl \<Rightarrow> fl \<Rightarrow> fl" where
  "d_plus tau z r q sigma =
     divide_no_nan
       (fadd (flog z) (fmul (fadd (fsub r q) (fmul (Fin 0.5) (fmul sigma sigma))) tau))
       (fmul sigma (fsqrt tau))"

definition d_minus :: "fl \<Rightarrow> fl \<Rightarrow> fl \<Rightarrow> fl \<Rightarrow> fl \<Rightarrow> fl" where
  "d_minus tau z r q sigma = fsub (d_plus tau z r q sigma) (fmul sigma (fsqrt tau))"

section \<open>Tensors\<close>

text \<open>
  A tensor is a nested list, row-major. The shapes are those of the source's comments:
  \<open>[num_options]\<close>, \<open>[num_options, grid_num_points]\<close> and
  \<open>[num_options, grid_num_points, n]\<close>. An operation that raises in TensorFlow
  (incompatible shapes, an impossible reshape or squeeze) returns \<open>None\<close>.
\<close>

type_synonym tensor1 = "fl list"
type_synonym tensor2 = "fl list list"
type_synonym tensor3 = "fl list list list"

definition shape2 :: "'a list list \<Rightarrow> nat \<Rightarrow> nat \<Rightarrow> bool" where
  "shape2 t m n = (length t = m \<and> (\<forall>r \<in> set t. length r = n))"

definition shape3 :: "'a list list list \<Rightarrow> nat \<Rightarrow> nat \<Rightarrow> nat \<Rightarrow> bool" where
  "shape3 t m n p = (length t = m \<and> (\<forall>r \<in> set t. shape2 r n p))"

text \<open>The static shape read by \<^verbatim>\<open>utils.get_shape(x)[1]\<close> and \<^verbatim>\<open>[2]\<close>.\<close>

definition dim1 :: "'a list list \<Rightarrow> nat" where
  "dim1 t = (case t of [] \<Rightarrow> 0 | r # _ \<Rightarrow> length r)"

definition dim2 :: "'a list list list \<Rightarrow> nat" where
  "dim2 t = (case t of [] \<Rightarrow> 0 | r # _ \<Rightarrow> dim1 r)"

subsection \<open>Elementwise operations and broadcasting\<close>

definition map2d :: "('a \<Rightarrow> 'b) \<Rightarrow> 'a list list \<Rightarrow> 'b list list" where
  "map2d f = map (map f)"

definition map3d :: "('a \<Rightarrow> 'b) \<Rightarrow> 'a list list list \<Rightarrow> 'b list list list" where
  "map3d f = map (map (map f))"

text \<open>
  One axis of a binary operation under broadcasting: equal lengths pair up, a length of
  1 is stretched, anything else is an error.
\<close>

definition lift_bc :: "('a \<Rightarrow> 'b \<Rightarrow> 'c option) \<Rightarrow> 'a list \<Rightarrow> 'b list \<Rightarrow> 'c list option" where
  "lift_bc f xs ys =
     (if length xs = length ys then those (map2 f xs ys)
      else if length xs = 1 then those (map (f (hd xs)) ys)
      else if length ys = 1 then those (map (\<lambda>x. f x (hd ys)) xs)
      else None)"

definition bc1 :: "('a \<Rightarrow> 'b \<Rightarrow> 'c) \<Rightarrow> 'a list \<Rightarrow> 'b list \<Rightarrow> 'c list option" where
  "bc1 f = lift_bc (\<lambda>x y. Some (f x y))"

definition bc2 ::
  "('a \<Rightarrow> 'b \<Rightarrow> 'c) \<Rightarrow> 'a list list \<Rightarrow> 'b list list \<Rightarrow> 'c list list option" where
  "bc2 f = lift_bc (bc1 f)"

definition bc3 ::
  "('a \<Rightarrow> 'b \<Rightarrow> 'c) \<Rightarrow> 'a list list list \<Rightarrow> 'b list list list \<Rightarrow> 'c list list list option" where
  "bc3 f = lift_bc (bc2 f)"

subsection \<open>Shape changes and reductions\<close>

text \<open>\<^verbatim>\<open>x[:, tf.newaxis]\<close> and \<^verbatim>\<open>tf.expand_dims(x, axis=-1)\<close> on rank 1.\<close>

definition expand_dims1 :: "'a list \<Rightarrow> 'a list list" where
  "expand_dims1 t = map (\<lambda>x. [x]) t"

text \<open>\<^verbatim>\<open>tf.expand_dims(x, axis=-1)\<close> on rank 2.\<close>

definition expand_dims2 :: "'a list list \<Rightarrow> 'a list list list" where
  "expand_dims2 t = map (map (\<lambda>x. [x])) t"

text \<open>\<^verbatim>\<open>x[:, tf.newaxis]\<close> on rank 2: the new axis is the middle one.\<close>

definition newaxis1 :: "'a list list \<Rightarrow> 'a list list list" where
  "newaxis1 t = map (\<lambda>row. [row]) t"

text \<open>\<^verbatim>\<open>tf.squeeze(x, axis=-1)\<close>: an error unless the last axis has length 1.\<close>

definition squeeze_last :: "'a list list list \<Rightarrow> 'a list list option" where
  "squeeze_last t =
     (if \<forall>r \<in> set t. \<forall>c \<in> set r. length c = 1 then Some (map (map hd) t) else None)"

definition zeros_like :: "tensor2 \<Rightarrow> tensor2" where
  "zeros_like t = map2d (\<lambda>x. Fin 0) t"

definition ones_like :: "tensor3 \<Rightarrow> tensor3" where
  "ones_like t = map3d (\<lambda>x. Fin 1) t"

text \<open>\<^verbatim>\<open>tf.reduce_sum(x, axis=-1)\<close> and \<^verbatim>\<open>tf.math.reduce_max(x)\<close>. The
  maximum of no element is \<open>-inf\<close>, and the maximum is NaN as soon as one element
  is NaN.\<close>

definition reduce_sum :: "tensor3 \<Rightarrow> tensor2" where
  "reduce_sum t = map2d (\<lambda>c. foldl fadd (Fin 0) c) t"

definition reduce_max :: "tensor2 \<Rightarrow> fl" where
  "reduce_max t = foldl fmaximum NInf (concat t)"

function chunks :: "nat \<Rightarrow> 'a list \<Rightarrow> 'a list list" where
  "chunks c xs = (if c = 0 \<or> xs = [] then [] else take c xs # chunks c (drop c xs))"
  by pat_completeness auto
termination
  by (relation "measure (\<lambda>(c, xs). length xs)") auto

text \<open>
  \<^verbatim>\<open>tf.reshape(x, [-1, c])\<close> and \<^verbatim>\<open>tf.reshape(x, [-1, s1, s2])\<close> of the
  elements in row-major order: an error when the given sizes are zero or do not divide
  the number of elements.
\<close>

definition reshape2 :: "'a list \<Rightarrow> nat \<Rightarrow> 'a list list option" where
  "reshape2 flat c =
     (if c = 0 \<or> length flat mod c \<noteq> 0 then None else Some (chunks c flat))"

definition reshape3 :: "'a list \<Rightarrow> nat \<Rightarrow> nat \<Rightarrow> 'a list list list option" where
  "reshape3 flat s1 s2 =
     (if s1 * s2 = 0 \<or> length flat mod (s1 * s2) \<noteq> 0 then None
      else Some (chunks s1 (chunks s2 flat)))"

section \<open>Probability kernels on tensors\<close>

text \<open>The same kernels on rank-3 tensors, operation by operation, with broadcasting.\<close>

definition d_plus_t ::
  "tensor3 \<Rightarrow> tensor3 \<Rightarrow> tensor3 \<Rightarrow> tensor3 \<Rightarrow> tensor3 \<Rightarrow> tensor3 option" where
  "d_plus_t tau z r q sigma = do {
     rq \<leftarrow> bc3 fsub r q;
     drift \<leftarrow> bc3 fadd rq (map3d (\<lambda>s. fmul (Fin 0.5) (fmul s s)) sigma);
     dt \<leftarrow> bc3 fmul drift tau;
     num \<leftarrow> bc3 fadd (map3d flog z) dt;
     den \<leftarrow> bc3 fmul sigma (map3d fsqrt tau);
     bc3 divide_no_nan num den
   }"

definition d_minus_t ::
  "tensor3 \<Rightarrow> tensor3 \<Rightarrow> tensor3 \<Rightarrow> tensor3 \<Rightarrow> tensor3 \<Rightarrow> tensor3 option" where
  "d_minus_t tau z r q sigma = do {
     dp \<leftarrow> d_plus_t tau z r q sigma;
     st \<leftarrow> bc3 fmul sigma (map3d fsqrt tau);
     bc3 fsub dp st
   }"

section \<open>Integral term evaluators\<close>

text \<open>
  The trial boundary \<open>b\<close> is a callable on rank-3 tensors. The quadrature routine
  \<^verbatim>\<open>gauss_legendre\<close> is a collaborator, the parameter \<open>integrate\<close> of both evaluators; it receives
  the integrand \<open>func\<close>, the limits and the number of points.
\<close>

type_synonym boundary_fn = "tensor3 \<Rightarrow> tensor3 option"
type_synonym quadrature = "boundary_fn \<Rightarrow> tensor2 \<Rightarrow> tensor2 \<Rightarrow> nat \<Rightarrow> tensor2 option"

text \<open>The local \<^verbatim>\<open>ratio = b(tau_grid_exp) / b(u)\<close> of both integrands.\<close>

definition ratio :: "boundary_fn \<Rightarrow> tensor3 \<Rightarrow> tensor3 \<Rightarrow> tensor3 option" where
  "ratio b tau_grid_exp u = do {
     b_tau \<leftarrow> b tau_grid_exp;
     b_u \<leftarrow> b u;
     bc3 fdiv b_tau b_u
   }"

definition numerator_func ::
  "boundary_fn \<Rightarrow> tensor3 \<Rightarrow> tensor3 \<Rightarrow> tensor3 \<Rightarrow> tensor3 \<Rightarrow> tensor3 \<Rightarrow> tensor3 option" where
  "numerator_func b tau_grid_exp r_exp q_exp sigma_exp u = do {
     ratio \<leftarrow> ratio b tau_grid_exp u;
     t \<leftarrow> bc3 fsub tau_grid_exp u;
     dm \<leftarrow> d_minus_t t ratio r_exp q_exp sigma_exp;
     let norm = map3d standard_normal_cdf dm;
     ru \<leftarrow> bc3 fmul r_exp u;
     bc3 fmul (map3d fexp ru) norm
   }"

definition boundary_numerator ::
  "quadrature \<Rightarrow> tensor2 \<Rightarrow> boundary_fn \<Rightarrow> tensor1 \<Rightarrow> tensor1 \<Rightarrow> tensor1 \<Rightarrow> tensor1 \<Rightarrow> nat \<Rightarrow>
   tensor2 option" where
  "boundary_numerator integrate tau_grid b k r q sigma integration_num_points = do {
     let k_exp = newaxis1 (expand_dims1 k);
     let r_simple_exp = expand_dims1 r;
     let r_exp = newaxis1 r_simple_exp;
     let q_exp = newaxis1 (expand_dims1 q);
     let sigma_exp = newaxis1 (expand_dims1 sigma);
     let tau_grid_exp = expand_dims2 tau_grid;
     b_tau \<leftarrow> b tau_grid_exp;
     z \<leftarrow> bc3 fdiv b_tau k_exp;
     dm \<leftarrow> d_minus_t tau_grid_exp z r_exp q_exp sigma_exp;
     term1 \<leftarrow> squeeze_last (map3d standard_normal_cdf dm);
     integral \<leftarrow> integrate (numerator_func b tau_grid_exp r_exp q_exp sigma_exp)
       (zeros_like tau_grid) tau_grid integration_num_points;
     term2 \<leftarrow> bc2 fmul r_simple_exp integral;
     bc2 fadd term1 term2
   }"

definition denominator_func ::
  "boundary_fn \<Rightarrow> tensor3 \<Rightarrow> tensor3 \<Rightarrow> tensor3 \<Rightarrow> tensor3 \<Rightarrow> tensor3 \<Rightarrow> tensor3 option" where
  "denominator_func b tau_grid_exp r_exp q_exp sigma_exp u = do {
     ratio \<leftarrow> ratio b tau_grid_exp u;
     t \<leftarrow> bc3 fsub tau_grid_exp u;
     dp \<leftarrow> d_plus_t t ratio r_exp q_exp sigma_exp;
     let norm = map3d standard_normal_cdf dp;
     qu \<leftarrow> bc3 fmul q_exp u;
     bc3 fmul (map3d fexp qu) norm
   }"

definition boundary_denominator ::
  "quadrature \<Rightarrow> tensor2 \<Rightarrow> boundary_fn \<Rightarrow> tensor1 \<Rightarrow> tensor1 \<Rightarrow> tensor1 \<Rightarrow> tensor1 \<Rightarrow> nat \<Rightarrow>
   tensor2 option" where
  "boundary_denominator integrate tau_grid b k r q sigma integration_num_points = do {
     let k_exp = newaxis1 (expand_dims1 k);
     let r_exp = newaxis1 (expand_dims1 r);
     let q_simple_exp = expand_dims1 q;
     let q_exp = newaxis1 q_simple_exp;
     let sigma_exp = newaxis1 (expand_dims1 sigma);
     let tau_grid_exp = expand_dims2 tau_grid;
     b_tau \<leftarrow> b tau_grid_exp;
     z \<leftarrow> bc3 fdiv b_tau k_exp;
     dp \<leftarrow> d_plus_t tau_grid_exp z r_exp q_exp sigma_exp;
     term1 \<leftarrow> squeeze_last (map3d standard_normal_cdf dp);
     integral \<leftarrow> integrate (denominator_func b tau_grid_exp r_exp q_exp sigma_exp)
       (zeros_like tau_grid) tau_grid integration_num_points;
     term2 \<leftarrow> bc2 fmul q_simple_exp integral;
     bc2 fadd term1 term2
   }"

section \<open>The quadrature collaborator\<close>

text \<open>
  Modelled from the spec: the quadrature routine \<^verbatim>\<open>gauss_legendre\<close> of
  \<^verbatim>\<open>tf_quant_finance.math.integration\<close> is not part of the source under study. It
  is the fixed-abscissa Gauss--Legendre rule of the spec: the node positions have the
  leading shape of the limits and a trailing node axis, the limits differ per element,
  and the value is the weighted sum of the integrand at the nodes scaled by half the
  width of the interval. The tables of roots and weights per number of points are
  parameters.
\<close>

definition gauss_legendre :: "(nat \<Rightarrow> real list) \<Rightarrow> (nat \<Rightarrow> real list) \<Rightarrow> quadrature" where
  "gauss_legendre legendre_roots legendre_weights func lower upper num_points = do {
     let lower_exp = expand_dims2 lower;
     let upper_exp = expand_dims2 upper;
     let roots = [[map Fin (legendre_roots num_points)]];
     let weights = [[map Fin (legendre_weights num_points)]];
     width \<leftarrow> bc3 fsub upper_exp lower_exp;
     scaled \<leftarrow> bc3 fmul width roots;
     shifted \<leftarrow> bc3 fadd scaled upper_exp;
     centred \<leftarrow> bc3 fadd shifted lower_exp;
     let grid = map3d (\<lambda>v. fdiv v (Fin 2)) centred;
     values \<leftarrow> func grid;
     scaled_values \<leftarrow> bc3 fmul values width;
     weighted \<leftarrow> bc3 fmul scaled_values weights;
     Some (reduce_sum (map3d (\<lambda>v. fdiv v (Fin 2)) weighted))
   }"

section \<open>Boundary solver\<close>

text \<open>
  The spline collaborators \<^verbatim>\<open>build_spline\<close> and \<^verbatim>\<open>interpolate\<close> are parameters:
  \<open>build_spline knots values\<close> returns the spline parameters, of an arbitrary type,
  and \<open>interpolate points params\<close> evaluates the spline on a rank-2 tensor.
\<close>

definition current_exercise_boundary_fn ::
  "(tensor2 \<Rightarrow> 'p \<Rightarrow> tensor2 option) \<Rightarrow> 'p \<Rightarrow> boundary_fn" where
  "current_exercise_boundary_fn interpolate spline_params tau_grid_exp = do {
     let shape_1 = dim1 tau_grid_exp;
     let shape_2 = dim2 tau_grid_exp;
     tau_grid_exp_reshape \<leftarrow> reshape2 (concat (map concat tau_grid_exp)) (shape_1 * shape_2);
     interpolation \<leftarrow> interpolate tau_grid_exp_reshape spline_params;
     reshape3 (concat interpolation) shape_1 shape_2
   }"

definition new_exercise_boundary_fn ::
  "(tensor2 \<Rightarrow> 'p \<Rightarrow> tensor2 option) \<Rightarrow> 'p \<Rightarrow> boundary_fn" where
  "new_exercise_boundary_fn interpolate new_spline_params tau_grid_exp = do {
     let shape_1 = dim1 tau_grid_exp;
     let shape_2 = dim2 tau_grid_exp;
     tau_grid_exp_reshape \<leftarrow> reshape2 (concat (map concat tau_grid_exp)) (shape_1 * shape_2);
     interpolation \<leftarrow> interpolate tau_grid_exp_reshape new_spline_params;
     reshape3 (concat interpolation) shape_1 shape_2
   }"

definition b_0 :: "tensor2 \<Rightarrow> tensor2 \<Rightarrow> tensor2 \<Rightarrow> boundary_fn" where
  "b_0 k_exp r_exp q_exp tau_grid_exp = do {
     let k_exp_exp = expand_dims2 k_exp;
     let r_exp_exp = expand_dims2 r_exp;
     let q_exp_exp = expand_dims2 q_exp;
     scaled \<leftarrow> bc3 fmul (ones_like tau_grid_exp) k_exp_exp;
     rq \<leftarrow> bc3 fdiv r_exp_exp q_exp_exp;
     bc3 fmul scaled (map3d (fminimum (Fin 1)) rq)
   }"

definition cond :: "bool \<times> tensor2 \<Rightarrow> bool" where
  "cond vars = (\<not> fst vars)"

definition body ::
  "(tensor2 \<Rightarrow> tensor2 \<Rightarrow> 'p option) \<Rightarrow> (tensor2 \<Rightarrow> 'p \<Rightarrow> tensor2 option) \<Rightarrow> quadrature \<Rightarrow>
   fl \<Rightarrow> fl \<Rightarrow> nat \<Rightarrow> tensor2 \<Rightarrow> tensor1 \<Rightarrow> tensor1 \<Rightarrow> tensor1 \<Rightarrow> tensor1 \<Rightarrow>
   tensor2 \<Rightarrow> tensor2 \<Rightarrow> tensor2 \<Rightarrow> bool \<times> tensor2 \<Rightarrow> (bool \<times> tensor2) option" where
  "body build_spline interpolate integrate epsilon tolerance integration_num_points
        tau_grid k r q sigma k_exp r_exp q_exp vars = do {
     let current_boundary_points = snd vars;
     spline_params \<leftarrow> build_spline tau_grid current_boundary_points;
     let b = current_exercise_boundary_fn interpolate spline_params;
     numerator \<leftarrow> boundary_numerator integrate tau_grid b k r q sigma integration_num_points;
     denominator \<leftarrow> boundary_denominator integrate tau_grid b k r q sigma integration_num_points;
     rq \<leftarrow> bc2 fsub r_exp q_exp;
     e \<leftarrow> bc2 fmul (map2d fneg rq) tau_grid;
     discounted \<leftarrow> bc2 fmul k_exp (map2d fexp e);
     scaled \<leftarrow> bc2 fmul discounted numerator;
     new_boundary_points \<leftarrow> bc2 divide_no_nan scaled denominator;
     diff \<leftarrow> bc2 fsub new_boundary_points current_boundary_points;
     errors \<leftarrow> bc2 fdiv (map2d fabs diff)
       (map2d (\<lambda>x. fadd (fabs x) epsilon) new_boundary_points);
     let relative_error = reduce_max errors;
     let converged = fle relative_error tolerance;
     Some (converged, new_boundary_points)
   }"

text \<open>\<^verbatim>\<open>tf.while_loop\<close> with \<^verbatim>\<open>maximum_iterations\<close>.\<close>

fun while_loop ::
  "('s \<Rightarrow> bool) \<Rightarrow> ('s \<Rightarrow> 's option) \<Rightarrow> 's \<Rightarrow> nat \<Rightarrow> 's option" where
  "while_loop c f vars 0 = Some vars"
| "while_loop c f vars (Suc n) =
     (if c vars then (case f vars of None \<Rightarrow> None | Some vars' \<Rightarrow> while_loop c f vars' n)
      else Some vars)"

text \<open>The choice of \<^verbatim>\<open>epsilon\<close>: \<open>1e-6\<close>, and \<open>1e-10\<close> if the dtype is
  \<^verbatim>\<open>tf.float64\<close>.\<close>

definition epsilon_for :: "dtype \<Rightarrow> fl" where
  "epsilon_for dtype = (if dtype = Float64 then Fin (1 / 10 ^ 10) else Fin (1 / 10 ^ 6))"

definition exercise_boundary ::
  "(tensor2 \<Rightarrow> tensor2 \<Rightarrow> 'p option) \<Rightarrow> (tensor2 \<Rightarrow> 'p \<Rightarrow> tensor2 option) \<Rightarrow> quadrature \<Rightarrow>
   dtype \<Rightarrow> tensor2 \<Rightarrow> tensor1 \<Rightarrow> tensor1 \<Rightarrow> tensor1 \<Rightarrow> tensor1 \<Rightarrow> nat \<Rightarrow> fl \<Rightarrow> nat \<Rightarrow>
   boundary_fn option" where
  "exercise_boundary build_spline interpolate integrate dtype
        tau_grid k r q sigma max_depth tolerance integration_num_points = do {
     let epsilon = epsilon_for dtype;
     let k_exp = expand_dims1 k;
     let r_exp = expand_dims1 r;
     let q_exp = expand_dims1 q;
     let tau_grid_exp = expand_dims2 tau_grid;
     let converged = False;
     initial \<leftarrow> b_0 k_exp r_exp q_exp tau_grid_exp;
     initial_points \<leftarrow> squeeze_last initial;
     vars \<leftarrow> while_loop cond
       (body build_spline interpolate integrate epsilon tolerance integration_num_points
          tau_grid k r q sigma k_exp r_exp q_exp)
       (converged, initial_points) max_depth;
     let result = snd vars;
     new_spline_params \<leftarrow> build_spline tau_grid result;
     Some (new_exercise_boundary_fn interpolate new_spline_params)
   }"

section \<open>Vocabulary of the proofs\<close>

text \<open>
  A tensor of a known shape is the table of its elements; under broadcasting an axis of
  length 1 is read at index 0.
\<close>

definition tab1 :: "nat \<Rightarrow> (nat \<Rightarrow> 'a) \<Rightarrow> 'a list" where
  "tab1 m g = map g [0..<m]"

definition tab2 :: "nat \<Rightarrow> nat \<Rightarrow> (nat \<Rightarrow> nat \<Rightarrow> 'a) \<Rightarrow> 'a list list" where
  "tab2 m n g = tab1 m (\<lambda>i. tab1 n (g i))"

definition tab3 ::
  "nat \<Rightarrow> nat \<Rightarrow> nat \<Rightarrow> (nat \<Rightarrow> nat \<Rightarrow> nat \<Rightarrow> 'a) \<Rightarrow> 'a list list list" where
  "tab3 m n p g = tab1 m (\<lambda>i. tab2 n p (g i))"

definition bc_ok :: "nat \<Rightarrow> nat \<Rightarrow> bool" where
  "bc_ok a b = (a = b \<or> a = 1 \<or> b = 1)"

definition bc_dim :: "nat \<Rightarrow> nat \<Rightarrow> nat" where
  "bc_dim a b = (if a = 1 then b else a)"

definition bidx :: "nat \<Rightarrow> nat \<Rightarrow> nat" where
  "bidx a i = (if a = 1 then 0 else i)"

text \<open>A per-option parameter has the length of the batch or length 1.\<close>

definition par_ok :: "nat \<Rightarrow> nat \<Rightarrow> bool" where
  "par_ok m a = (a = m \<or> a = 1)"

text \<open>The result of \<open>d\<close> runs of the loop body, whatever the flag.\<close>

fun iterate :: "('s \<Rightarrow> 's option) \<Rightarrow> nat \<Rightarrow> 's \<Rightarrow> 's option" where
  "iterate f 0 s = Some s"
| "iterate f (Suc d) s = (case f s of None \<Rightarrow> None | Some s' \<Rightarrow> iterate f d s')"

text \<open>
  What the proofs about the whole solver ask of the collaborators. The spline routines
  accept every pair of \<open>[m, n]\<close> tensors, whatever the values, and interpolation returns
  a tensor of the shape of the query points; a callable keeps the shape of its argument;
  the quadrature returns a tensor of the shape of its limits when the integrand keeps
  the shape of the nodes.
\<close>

definition spline_ok ::
  "(tensor2 \<Rightarrow> tensor2 \<Rightarrow> 'p option) \<Rightarrow> (tensor2 \<Rightarrow> 'p \<Rightarrow> tensor2 option) \<Rightarrow> nat \<Rightarrow> nat \<Rightarrow> bool" where
  "spline_ok build_spline interpolate m n =
     (\<forall>knots values. shape2 knots m n \<longrightarrow> shape2 values m n \<longrightarrow>
        (\<exists>sp. build_spline knots values = Some sp \<and>
           (\<forall>pts c. shape2 pts m c \<longrightarrow>
              (\<exists>vals. interpolate pts sp = Some vals \<and> shape2 vals m c))))"

definition keeps_shape :: "boundary_fn \<Rightarrow> nat \<Rightarrow> nat \<Rightarrow> bool" where
  "keeps_shape f m n =
     (\<forall>u c. shape3 u m n c \<longrightarrow> 0 < c \<longrightarrow> (\<exists>v. f u = Some v \<and> shape3 v m n c))"

definition quadrature_ok :: "quadrature \<Rightarrow> nat \<Rightarrow> nat \<Rightarrow> nat \<Rightarrow> bool" where
  "quadrature_ok integrate np m n =
     (\<forall>func lower upper. shape2 lower m n \<longrightarrow> shape2 upper m n \<longrightarrow> keeps_shape func m n \<longrightarrow>
        (\<exists>g. integrate func lower upper np = Some g \<and> shape2 g m n))"


section \<open>Tables and broadcasting\<close>

lemma length_tab1 [simp]: "length (tab1 m g) = m"
  by (simp add: tab1_def)

lemma nth_tab1 [simp]: "i < m \<Longrightarrow> tab1 m g ! i = g i"
  by (simp add: tab1_def)

lemma tab1_cong [cong]:
  "m = m' \<Longrightarrow> (\<And>i. i < m' \<Longrightarrow> g i = h i) \<Longrightarrow> tab1 m g = tab1 m' h"
  by (simp add: tab1_def)

lemma tab1_nth: "length t = m \<Longrightarrow> tab1 m (\<lambda>i. t ! i) = t"
  by (auto simp: tab1_def map_nth)

lemma tab1_Suc0: "tab1 (Suc 0) g = [g 0]"
  by (simp add: tab1_def)

lemma map_tab1 [simp]: "map f (tab1 m g) = tab1 m (\<lambda>i. f (g i))"
  by (simp add: tab1_def)

lemma set_tab1: "set (tab1 m g) = g ` {..<m}"
  by (auto simp: tab1_def)

lemma tab2_cong [cong]:
  "m = m' \<Longrightarrow> n = n' \<Longrightarrow> (\<And>i j. i < m' \<Longrightarrow> j < n' \<Longrightarrow> g i j = h i j) \<Longrightarrow>
   tab2 m n g = tab2 m' n' h"
  by (simp add: tab2_def)

lemma tab3_cong [cong]:
  "m = m' \<Longrightarrow> n = n' \<Longrightarrow> p = p' \<Longrightarrow>
   (\<And>i j k. i < m' \<Longrightarrow> j < n' \<Longrightarrow> k < p' \<Longrightarrow> g i j k = h i j k) \<Longrightarrow>
   tab3 m n p g = tab3 m' n' p' h"
  by (simp add: tab3_def)

lemma shape2_tab2 [simp]: "shape2 (tab2 m n g) m n"
  by (auto simp: shape2_def tab2_def set_tab1)

lemma shape3_tab3 [simp]: "shape3 (tab3 m n p g) m n p"
  by (auto simp: shape3_def tab3_def set_tab1)

lemma nth_tab2 [simp]: "i < m \<Longrightarrow> j < n \<Longrightarrow> tab2 m n g ! i ! j = g i j"
  by (simp add: tab2_def)

lemma nth_tab3 [simp]: "i < m \<Longrightarrow> j < n \<Longrightarrow> k < p \<Longrightarrow> tab3 m n p g ! i ! j ! k = g i j k"
  by (simp add: tab3_def tab2_def)

lemma length_tab2 [simp]: "length (tab2 m n g) = m"
  by (simp add: tab2_def)

lemma length_tab3 [simp]: "length (tab3 m n p g) = m"
  by (simp add: tab3_def)

lemma shape2_tab2_nth: "shape2 t m n \<Longrightarrow> t = tab2 m n (\<lambda>i j. t ! i ! j)"
  unfolding shape2_def tab2_def tab1_def
  by (intro nth_equalityI) simp_all

lemma shape3_tab3_nth:
  assumes "shape3 t m n p"
  shows "t = tab3 m n p (\<lambda>i j k. t ! i ! j ! k)"
proof -
  have "t = tab1 m (\<lambda>i. t ! i)"
    using assms by (simp add: shape3_def tab1_nth)
  also have "\<dots> = tab1 m (\<lambda>i. tab2 n p (\<lambda>j k. t ! i ! j ! k))"
  proof (rule tab1_cong)
    fix i assume "i < m"
    then have "shape2 (t ! i) n p"
      using assms by (simp add: shape3_def)
    then show "t ! i = tab2 n p (\<lambda>j k. t ! i ! j ! k)"
      by (rule shape2_tab2_nth)
  qed simp
  finally show ?thesis
    by (simp add: tab3_def)
qed

lemma those_eq_Some: "those xs = Some ys \<longleftrightarrow> xs = map Some ys"
  by (induction xs arbitrary: ys) (auto split: option.splits)

lemma those_tab1_Some [simp]: "those (tab1 m (\<lambda>i. Some (g i))) = Some (tab1 m g)"
  by (simp add: those_eq_Some)

lemma bidx_less [simp]: "i < a \<Longrightarrow> bidx a i = i"
  by (auto simp: bidx_def)

lemma bidx_one [simp]: "bidx (Suc 0) i = 0"
  by (simp add: bidx_def)

lemma bidx_bidx [simp]:
  "bidx a (bidx (bc_dim a c) i) = bidx a i" "bidx c (bidx (bc_dim a c) i) = bidx c i"
  by (auto simp: bidx_def bc_dim_def)

lemma bc_dim_simps [simp]: "bc_dim a a = a" "bc_dim (Suc 0) a = a" "bc_dim a (Suc 0) = a"
  by (auto simp: bc_dim_def)

lemma bc_ok_simps [simp]: "bc_ok a a" "bc_ok (Suc 0) a" "bc_ok a (Suc 0)"
  by (auto simp: bc_ok_def)

lemma par_ok_simps [simp]: "par_ok m m" "par_ok m (Suc 0)"
  by (auto simp: par_ok_def)

lemma lift_bc_tab1:
  "lift_bc f (tab1 a g) (tab1 b h) =
     (if bc_ok a b then those (tab1 (bc_dim a b) (\<lambda>i. f (g (bidx a i)) (h (bidx b i))))
      else None)"
proof -
  have eq: "map2 f (tab1 a g) (tab1 a h) = tab1 a (\<lambda>i. f (g i) (h i))" for a
    by (rule nth_equalityI) simp_all
  have one: "hd (tab1 (Suc 0) g) = g 0" for g :: "nat \<Rightarrow> 'd"
    by (simp add: tab1_def)
  show ?thesis
    using eq [of a]
    by (auto simp: lift_bc_def bc_ok_def bc_dim_def one tab1_Suc0)
qed

lemma lift_bc_None: "\<not> bc_ok (length xs) (length ys) \<Longrightarrow> lift_bc f xs ys = None"
  by (auto simp: lift_bc_def bc_ok_def)

lemma bc1_tab1 [simp]:
  "bc_ok a b \<Longrightarrow>
   bc1 f (tab1 a g) (tab1 b h) = Some (tab1 (bc_dim a b) (\<lambda>i. f (g (bidx a i)) (h (bidx b i))))"
  by (simp add: bc1_def lift_bc_tab1)

lemma bc2_tab2 [simp]:
  "bc_ok ma mb \<Longrightarrow> bc_ok na nb \<Longrightarrow>
   bc2 f (tab2 ma na g) (tab2 mb nb h) =
     Some (tab2 (bc_dim ma mb) (bc_dim na nb)
       (\<lambda>i j. f (g (bidx ma i) (bidx na j)) (h (bidx mb i) (bidx nb j))))"
  by (simp add: bc2_def tab2_def lift_bc_tab1)

lemma bc3_tab3 [simp]:
  "bc_ok ma mb \<Longrightarrow> bc_ok na nb \<Longrightarrow> bc_ok pa pb \<Longrightarrow>
   bc3 f (tab3 ma na pa g) (tab3 mb nb pb h) =
     Some (tab3 (bc_dim ma mb) (bc_dim na nb) (bc_dim pa pb)
       (\<lambda>i j k. f (g (bidx ma i) (bidx na j) (bidx pa k))
          (h (bidx mb i) (bidx nb j) (bidx pb k))))"
  by (simp add: bc3_def tab3_def lift_bc_tab1)

lemma map2d_tab2 [simp]: "map2d f (tab2 m n g) = tab2 m n (\<lambda>i j. f (g i j))"
  by (simp add: map2d_def tab2_def)

lemma map3d_tab3 [simp]: "map3d f (tab3 m n p g) = tab3 m n p (\<lambda>i j k. f (g i j k))"
  by (simp add: map3d_def tab3_def tab2_def)

lemma expand_dims1_tab1 [simp]: "expand_dims1 (tab1 m g) = tab2 m (Suc 0) (\<lambda>i j. g i)"
  by (simp add: expand_dims1_def tab2_def tab1_Suc0)

lemma expand_dims2_tab2 [simp]: "expand_dims2 (tab2 m n g) = tab3 m n (Suc 0) (\<lambda>i j k. g i j)"
  by (simp add: expand_dims2_def tab3_def tab2_def tab1_Suc0)

lemma newaxis1_tab2 [simp]: "newaxis1 (tab2 m n g) = tab3 m (Suc 0) n (\<lambda>i j k. g i k)"
  by (simp add: newaxis1_def tab3_def tab2_def tab1_Suc0)

lemma squeeze_last_tab3 [simp]:
  "squeeze_last (tab3 m n (Suc 0) g) = Some (tab2 m n (\<lambda>i j. g i j 0))"
  by (auto simp: squeeze_last_def tab3_def tab2_def set_tab1 tab1_Suc0)

lemma zeros_like_tab2 [simp]: "zeros_like (tab2 m n g) = tab2 m n (\<lambda>i j. Fin 0)"
  by (simp add: zeros_like_def)

lemma ones_like_tab3 [simp]: "ones_like (tab3 m n p g) = tab3 m n p (\<lambda>i j k. Fin 1)"
  by (simp add: ones_like_def)

lemma reduce_sum_tab3 [simp]:
  "reduce_sum (tab3 m n p g) = tab2 m n (\<lambda>i j. foldl fadd (Fin 0) (tab1 p (g i j)))"
  by (simp add: reduce_sum_def map2d_def tab3_def tab2_def)

lemma singleton_tab3: "[[xs]] = tab3 (Suc 0) (Suc 0) (length xs) (\<lambda>i j k. xs ! k)"
  by (simp add: tab3_def tab2_def tab1_Suc0 tab1_nth)

section \<open>The evaluators, element by element\<close>

lemma d_plus_t_tab3 [simp]:
  "par_ok m mr \<Longrightarrow> par_ok m mq \<Longrightarrow> par_ok m ms \<Longrightarrow>
   d_plus_t (tab3 m n p tau) (tab3 m n p z) (tab3 mr (Suc 0) (Suc 0) r)
      (tab3 mq (Suc 0) (Suc 0) q) (tab3 ms (Suc 0) (Suc 0) sigma) =
   Some (tab3 m n p (\<lambda>i j k. d_plus (tau i j k) (z i j k)
      (r (bidx mr i) 0 0) (q (bidx mq i) 0 0) (sigma (bidx ms i) 0 0)))"
  unfolding par_ok_def
  by (elim disjE; simp add: d_plus_t_def d_plus_def)

lemma d_minus_t_tab3 [simp]:
  "par_ok m mr \<Longrightarrow> par_ok m mq \<Longrightarrow> par_ok m ms \<Longrightarrow>
   d_minus_t (tab3 m n p tau) (tab3 m n p z) (tab3 mr (Suc 0) (Suc 0) r)
      (tab3 mq (Suc 0) (Suc 0) q) (tab3 ms (Suc 0) (Suc 0) sigma) =
   Some (tab3 m n p (\<lambda>i j k. d_minus (tau i j k) (z i j k)
      (r (bidx mr i) 0 0) (q (bidx mq i) 0 0) (sigma (bidx ms i) 0 0)))"
  apply (simp add: d_minus_t_def d_minus_def)
  unfolding par_ok_def
  by (elim disjE; simp)

lemma numerator_func_tab3:
  assumes "b (tab3 m n (Suc 0) tau) = Some (tab3 m n (Suc 0) bt)"
    and "b (tab3 m n p u) = Some (tab3 m n p bu)"
    and "par_ok m mr" "par_ok m mq" "par_ok m ms"
  shows "numerator_func b (tab3 m n (Suc 0) tau) (tab3 mr (Suc 0) (Suc 0) r)
      (tab3 mq (Suc 0) (Suc 0) q) (tab3 ms (Suc 0) (Suc 0) sigma) (tab3 m n p u) =
    Some (tab3 m n p (\<lambda>i j k. fmul (fexp (fmul (r (bidx mr i) 0 0) (u i j k)))
       (standard_normal_cdf (d_minus (fsub (tau i j 0) (u i j k)) (fdiv (bt i j 0) (bu i j k))
          (r (bidx mr i) 0 0) (q (bidx mq i) 0 0) (sigma (bidx ms i) 0 0)))))"
  using assms(1,2,4,5) assms(3) unfolding par_ok_def
  by (elim disjE; simp add: numerator_func_def ratio_def par_ok_def)

lemma denominator_func_tab3:
  assumes "b (tab3 m n (Suc 0) tau) = Some (tab3 m n (Suc 0) bt)"
    and "b (tab3 m n p u) = Some (tab3 m n p bu)"
    and "par_ok m mr" "par_ok m mq" "par_ok m ms"
  shows "denominator_func b (tab3 m n (Suc 0) tau) (tab3 mr (Suc 0) (Suc 0) r)
      (tab3 mq (Suc 0) (Suc 0) q) (tab3 ms (Suc 0) (Suc 0) sigma) (tab3 m n p u) =
    Some (tab3 m n p (\<lambda>i j k. fmul (fexp (fmul (q (bidx mq i) 0 0) (u i j k)))
       (standard_normal_cdf (d_plus (fsub (tau i j 0) (u i j k)) (fdiv (bt i j 0) (bu i j k))
          (r (bidx mr i) 0 0) (q (bidx mq i) 0 0) (sigma (bidx ms i) 0 0)))))"
  using assms(1,2,3,5) assms(4) unfolding par_ok_def
  by (elim disjE; simp add: denominator_func_def ratio_def par_ok_def)

lemma boundary_numerator_tab:
  assumes "b (tab3 m n (Suc 0) (\<lambda>i j k. tau i j)) = Some (tab3 m n (Suc 0) bt)"
    and "integrate (numerator_func b (tab3 m n (Suc 0) (\<lambda>i j k. tau i j))
           (tab3 mr (Suc 0) (Suc 0) (\<lambda>i j k. r i)) (tab3 mq (Suc 0) (Suc 0) (\<lambda>i j k. q i))
           (tab3 ms (Suc 0) (Suc 0) (\<lambda>i j k. sigma i)))
           (tab2 m n (\<lambda>i j. Fin 0)) (tab2 m n tau) npts = Some (tab2 m n G)"
    and "par_ok m mk" "par_ok m mr" "par_ok m mq" "par_ok m ms"
  shows "boundary_numerator integrate (tab2 m n tau) b (tab1 mk k) (tab1 mr r) (tab1 mq q)
      (tab1 ms sigma) npts =
    Some (tab2 m n (\<lambda>i j. fadd
       (standard_normal_cdf (d_minus (tau i j) (fdiv (bt i j 0) (k (bidx mk i)))
          (r (bidx mr i)) (q (bidx mq i)) (sigma (bidx ms i))))
       (fmul (r (bidx mr i)) (G i j))))"
  using assms(1,2,5,6) assms(3,4) unfolding par_ok_def [of m mk] par_ok_def [of m mr]
  by (elim disjE; simp add: boundary_numerator_def)

lemma boundary_denominator_tab:
  assumes "b (tab3 m n (Suc 0) (\<lambda>i j k. tau i j)) = Some (tab3 m n (Suc 0) bt)"
    and "integrate (denominator_func b (tab3 m n (Suc 0) (\<lambda>i j k. tau i j))
           (tab3 mr (Suc 0) (Suc 0) (\<lambda>i j k. r i)) (tab3 mq (Suc 0) (Suc 0) (\<lambda>i j k. q i))
           (tab3 ms (Suc 0) (Suc 0) (\<lambda>i j k. sigma i)))
           (tab2 m n (\<lambda>i j. Fin 0)) (tab2 m n tau) npts = Some (tab2 m n G)"
    and "par_ok m mk" "par_ok m mr" "par_ok m mq" "par_ok m ms"
  shows "boundary_denominator integrate (tab2 m n tau) b (tab1 mk k) (tab1 mr r) (tab1 mq q)
      (tab1 ms sigma) npts =
    Some (tab2 m n (\<lambda>i j. fadd
       (standard_normal_cdf (d_plus (tau i j) (fdiv (bt i j 0) (k (bidx mk i)))
          (r (bidx mr i)) (q (bidx mq i)) (sigma (bidx ms i))))
       (fmul (q (bidx mq i)) (G i j))))"
  using assms(1,2,4,6) assms(3,5) unfolding par_ok_def [of m mk] par_ok_def [of m mq]
  by (elim disjE; simp add: boundary_denominator_def)

lemma body_tab:
  assumes "build_spline (tab2 m n tau) (tab2 m n cur) = Some sp"
    and "boundary_numerator integrate (tab2 m n tau) (current_exercise_boundary_fn interpolate sp)
           k r q sigma npts = Some (tab2 m n N)"
    and "boundary_denominator integrate (tab2 m n tau) (current_exercise_boundary_fn interpolate sp)
           k r q sigma npts = Some (tab2 m n D)"
    and "par_ok m mk" "par_ok m mr" "par_ok m mq"
  shows "body build_spline interpolate integrate eps tol npts (tab2 m n tau) k r q sigma
      (tab2 mk (Suc 0) ke) (tab2 mr (Suc 0) re) (tab2 mq (Suc 0) qe) (c, tab2 m n cur) =
    Some (fle (reduce_max (tab2 m n (\<lambda>i j.
        fdiv (fabs (fsub (divide_no_nan (fmul (fmul (ke (bidx mk i) 0)
             (fexp (fmul (fneg (fsub (re (bidx mr i) 0) (qe (bidx mq i) 0))) (tau i j)))) (N i j)) (D i j))
             (cur i j)))
          (fadd (fabs (divide_no_nan (fmul (fmul (ke (bidx mk i) 0)
             (fexp (fmul (fneg (fsub (re (bidx mr i) 0) (qe (bidx mq i) 0))) (tau i j)))) (N i j)) (D i j)))
             eps)))) tol,
      tab2 m n (\<lambda>i j. divide_no_nan (fmul (fmul (ke (bidx mk i) 0)
             (fexp (fmul (fneg (fsub (re (bidx mr i) 0) (qe (bidx mq i) 0))) (tau i j)))) (N i j)) (D i j)))"
  using assms unfolding par_ok_def
  by (elim disjE; simp add: body_def)


lemma fle_refl: "x \<noteq> NaN \<Longrightarrow> fle x x"
  by (cases x) simp_all

lemma fle_trans: "fle x y \<Longrightarrow> fle y z \<Longrightarrow> fle x z"
  by (cases x; cases y; cases z) simp_all

lemma fle_total: "x \<noteq> NaN \<Longrightarrow> y \<noteq> NaN \<Longrightarrow> fless x y \<or> fle y x"
  by (cases x; cases y) auto

lemma fless_fle: "fless x y \<Longrightarrow> fle x y"
  by (cases x; cases y) simp_all

lemma fmaximum_cases: "x \<noteq> NaN \<Longrightarrow> y \<noteq> NaN \<Longrightarrow> fmaximum x y = x \<or> fmaximum x y = y"
  by (simp add: fmaximum_def)

lemma foldl_fmaximum_NaN: "a = NaN \<or> NaN \<in> set xs \<Longrightarrow> foldl fmaximum a xs = NaN"
  by (induction xs arbitrary: a) (auto simp: fmaximum_def)

lemma fmaximum_upper:
  "x \<noteq> NaN \<Longrightarrow> y \<noteq> NaN \<Longrightarrow> fle x (fmaximum x y) \<and> fle y (fmaximum x y)"
  using fle_total [of x y] by (auto simp: fmaximum_def fle_refl fless_fle)

lemma foldl_fmaximum:
  "a \<noteq> NaN \<Longrightarrow> \<forall>x \<in> set xs. x \<noteq> NaN \<Longrightarrow>
   foldl fmaximum a xs \<in> set (a # xs) \<and> (\<forall>x \<in> set (a # xs). fle x (foldl fmaximum a xs))"
proof (induction xs arbitrary: a)
  case Nil
  then show ?case by (simp add: fle_refl)
next
  case (Cons y ys)
  have ny: "y \<noteq> NaN" and nys: "\<forall>x \<in> set ys. x \<noteq> NaN"
    using Cons.prems(2) by simp_all
  have nm: "fmaximum a y \<noteq> NaN"
    using fmaximum_cases [OF Cons.prems(1) ny] Cons.prems(1) ny by auto
  have ih: "foldl fmaximum (fmaximum a y) ys \<in> set (fmaximum a y # ys) \<and>
      (\<forall>x \<in> set (fmaximum a y # ys). fle x (foldl fmaximum (fmaximum a y) ys))"
    using Cons.IH [OF nm nys] .
  have up: "fle a (fmaximum a y) \<and> fle y (fmaximum a y)"
    using fmaximum_upper [OF Cons.prems(1) ny] .
  show ?case
    using ih up fmaximum_cases [OF Cons.prems(1) ny] by (auto intro: fle_trans)
qed

lemma foldl_fmaximum_NInf:
  assumes "xs \<noteq> []" and "\<forall>x \<in> set xs. x \<noteq> NaN"
  shows "foldl fmaximum NInf xs \<in> set xs \<and> (\<forall>x \<in> set xs. fle x (foldl fmaximum NInf xs))"
proof -
  let ?r = "foldl fmaximum NInf xs"
  have f: "?r \<in> set (NInf # xs) \<and> (\<forall>x \<in> set (NInf # xs). fle x ?r)"
    using foldl_fmaximum [of NInf xs] assms(2) by blast
  obtain y where y: "y \<in> set xs"
    using assms(1) by (cases xs) auto
  have "?r \<in> set xs"
  proof (cases "?r = NInf")
    case True
    have "fle y ?r" using f y by simp
    then have "y = NInf" unfolding True by (cases y) simp_all
    then show ?thesis using y True by simp
  next
    case False
    then show ?thesis using f by auto
  qed
  then show ?thesis using f by simp
qed

lemma reduce_max_NaN: "NaN \<in> set (concat t) \<Longrightarrow> reduce_max t = NaN"
  unfolding reduce_max_def by (rule foldl_fmaximum_NaN) simp

lemma reduce_max_is_maximum:
  assumes "concat t \<noteq> []" and "\<forall>x \<in> set (concat t). x \<noteq> NaN"
  shows "reduce_max t \<in> set (concat t) \<and> (\<forall>x \<in> set (concat t). fle x (reduce_max t))"
  unfolding reduce_max_def using assms by (rule foldl_fmaximum_NInf)

lemma body_errors:
  assumes "body build_spline interpolate integrate eps tol npts tau_grid k r q sigma
             k_exp r_exp q_exp (c, tab2 m n cur) = Some (converged, tab2 m n new)"
  shows "converged = fle (reduce_max (tab2 m n (\<lambda>i j.
            fdiv (fabs (fsub (new i j) (cur i j))) (fadd (fabs (new i j)) eps)))) tol"
  using assms
  by (auto simp: body_def bind_eq_Some_conv Let_def)


section \<open>Properties of the kernels\<close>

lemma erf_0: "erf 0 = 0"
  by (simp add: erf_def)

lemma standard_normal_cdf_0: "standard_normal_cdf (Fin 0) = Fin (1 / 2)"
  by (simp add: standard_normal_cdf_def SQRT_2_def erf_0)

text \<open>
  C4. At \<open>tau = 0\<close> and a finite \<open>sigma\<close>, \<open>d_plus\<close> and \<open>d_minus\<close> are 0 for every
  \<open>z\<close>, \<open>r\<close> and \<open>q\<close>; so is \<open>d_plus\<close> at \<open>sigma = 0\<close> and a finite \<open>tau \<ge> 0\<close>; and
  whenever the denominator \<open>sigma * sqrt tau\<close> is exactly 0, \<open>d_plus\<close> is the finite
  value 0, neither NaN nor an infinity.
\<close>

theorem d_plus_d_minus_safe_divide:
  "d_plus (Fin 0) z r q (Fin s) = Fin 0 \<and> d_minus (Fin 0) z r q (Fin s) = Fin 0 \<and>
   (0 \<le> t \<longrightarrow> d_plus (Fin t) z r q (Fin 0) = Fin 0) \<and>
   (fmul sigma (fsqrt tau) = Fin 0 \<longrightarrow>
      d_plus tau z r q sigma = Fin 0 \<and> is_finite (d_plus tau z r q sigma))"
  by (simp add: d_plus_def d_minus_def divide_no_nan_def fsub_def)

theorem d_plus_d_minus_safe_divide_witness:
  "(0::real) \<le> 4 \<and> fmul (Fin 0) (fsqrt (Fin 4)) = Fin 0 \<and>
   d_plus (Fin 4) (Fin 2) (Fin 1) (Fin 1) (Fin 0) = Fin 0 \<and>
   is_finite (d_plus (Fin 4) (Fin 2) (Fin 1) (Fin 1) (Fin 0))"
  using d_plus_d_minus_safe_divide [of "Fin 2" "Fin 1" "Fin 1" 0 4 "Fin 0" "Fin 4"] by simp

section \<open>One iteration of the solver\<close>

lemmas eval_defs = boundary_numerator_def boundary_denominator_def numerator_func_def
  denominator_func_def ratio_def gauss_legendre_def current_exercise_boundary_fn_def
  new_exercise_boundary_fn_def newaxis1_def expand_dims1_def expand_dims2_def
  bc3_def bc2_def bc1_def lift_bc_def d_minus_t_def d_plus_t_def map3d_def map2d_def
  squeeze_last_def reshape2_def reshape3_def dim1_def dim2_def zeros_like_def ones_like_def
  reduce_sum_def fsub_def divide_no_nan_def

text \<open>
  C1. One run of \<open>body\<close> on sample vectors of shape \<open>[m, n]\<close>, where the evaluators
  return \<open>N\<close> and \<open>D\<close> for the spline-backed callable of the current samples: the new
  samples are \<open>K[i] * exp (-(r[i] - q[i]) * tau_grid[i,j]) * N[i,j]\<close> divided by
  \<open>D[i,j]\<close> with \<open>divide_no_nan\<close>, so that the result is 0 wherever \<open>D[i,j] = 0\<close>.
\<close>

theorem body_new_boundary_points:
  assumes "shape2 tau_grid m n" and "length k = m" and "length r = m" and "length q = m"
    and "shape2 current m n"
    and "build_spline tau_grid current = Some sp"
    and "boundary_numerator integrate tau_grid (current_exercise_boundary_fn interpolate sp)
           k r q sigma npts = Some N"
    and "boundary_denominator integrate tau_grid (current_exercise_boundary_fn interpolate sp)
           k r q sigma npts = Some D"
    and "shape2 N m n" and "shape2 D m n"
  shows "\<exists>converged new.
     body build_spline interpolate integrate eps tol npts tau_grid k r q sigma
       (expand_dims1 k) (expand_dims1 r) (expand_dims1 q) (c, current) = Some (converged, new) \<and>
     shape2 new m n \<and>
     (\<forall>i<m. \<forall>j<n.
        new ! i ! j =
          divide_no_nan
            (fmul (fmul (k ! i) (fexp (fmul (fneg (fsub (r ! i) (q ! i))) (tau_grid ! i ! j))))
               (N ! i ! j))
            (D ! i ! j) \<and>
        (D ! i ! j = Fin 0 \<longrightarrow> new ! i ! j = Fin 0))"
proof -
  define tau' where "tau' = (\<lambda>i j. tau_grid ! i ! j)"
  define cur' where "cur' = (\<lambda>i j. current ! i ! j)"
  define N' where "N' = (\<lambda>i j. N ! i ! j)"
  define D' where "D' = (\<lambda>i j. D ! i ! j)"
  define k' where "k' = (\<lambda>i. k ! i)"
  define r' where "r' = (\<lambda>i. r ! i)"
  define q' where "q' = (\<lambda>i. q ! i)"
  have tau: "tau_grid = tab2 m n tau'" and cur: "current = tab2 m n cur'"
    and N: "N = tab2 m n N'" and D: "D = tab2 m n D'"
    unfolding tau'_def cur'_def N'_def D'_def
    using assms(1,5,9,10) by (simp_all add: shape2_tab2_nth [symmetric])
  have k: "k = tab1 m k'" and r: "r = tab1 m r'" and q: "q = tab1 m q'"
    unfolding k'_def r'_def q'_def using assms(2,3,4) by (simp_all add: tab1_nth)
  have b: "body build_spline interpolate integrate eps tol npts tau_grid k r q sigma
       (expand_dims1 k) (expand_dims1 r) (expand_dims1 q) (c, current) =
     Some (fle (reduce_max (tab2 m n (\<lambda>i j.
        fdiv (fabs (fsub (divide_no_nan (fmul (fmul (k' i)
             (fexp (fmul (fneg (fsub (r' i) (q' i))) (tau' i j)))) (N' i j)) (D' i j))
             (cur' i j)))
          (fadd (fabs (divide_no_nan (fmul (fmul (k' i)
             (fexp (fmul (fneg (fsub (r' i) (q' i))) (tau' i j)))) (N' i j)) (D' i j)))
             eps)))) tol,
      tab2 m n (\<lambda>i j. divide_no_nan (fmul (fmul (k' i)
             (fexp (fmul (fneg (fsub (r' i) (q' i))) (tau' i j)))) (N' i j)) (D' i j)))"
    using assms(6,7,8) body_tab [of build_spline m n tau' cur' sp integrate interpolate k r q sigma
       npts N' D' m m m eps tol "\<lambda>i j. k' i" "\<lambda>i j. r' i" "\<lambda>i j. q' i" c]
    unfolding tau cur N D
    by (simp add: k r q)
  show ?thesis
    unfolding b
    by (simp add: divide_no_nan_def) (simp add: tau'_def N'_def D'_def k'_def r'_def q'_def)
qed

theorem body_new_boundary_points_witness:
  "shape2 [[Fin 0]] 1 1 \<and> length [Fin 100] = 1 \<and> length [Fin (1 / 100)] = 1 \<and>
   shape2 [[Fin 100]] 1 1 \<and> shape2 [[Fin (1 / 2)]] 1 1 \<and>
   (\<lambda>knots values. Some values) [[Fin 0]] [[Fin 100]] = Some [[Fin 100]] \<and>
   boundary_numerator (gauss_legendre (\<lambda>n. [- sqrt (1 / 3), sqrt (1 / 3)]) (\<lambda>n. [1, 1])) [[Fin 0]]
     (current_exercise_boundary_fn
        (\<lambda>x sp. Some (map2 (\<lambda>row vals. map (\<lambda>t. hd vals) row) x sp)) [[Fin 100]])
     [Fin 100] [Fin (1 / 100)] [Fin (1 / 100)] [Fin (1 / 10)] 2 = Some [[Fin (1 / 2)]] \<and>
   boundary_denominator (gauss_legendre (\<lambda>n. [- sqrt (1 / 3), sqrt (1 / 3)]) (\<lambda>n. [1, 1])) [[Fin 0]]
     (current_exercise_boundary_fn
        (\<lambda>x sp. Some (map2 (\<lambda>row vals. map (\<lambda>t. hd vals) row) x sp)) [[Fin 100]])
     [Fin 100] [Fin (1 / 100)] [Fin (1 / 100)] [Fin (1 / 10)] 2 = Some [[Fin (1 / 2)]] \<and>
   (\<exists>converged new.
      body (\<lambda>knots values. Some values)
        (\<lambda>x sp. Some (map2 (\<lambda>row vals. map (\<lambda>t. hd vals) row) x sp))
        (gauss_legendre (\<lambda>n. [- sqrt (1 / 3), sqrt (1 / 3)]) (\<lambda>n. [1, 1])) (Fin (1 / 10 ^ 10)) (Fin (1 / 10 ^ 8)) 2
        [[Fin 0]] [Fin 100] [Fin (1 / 100)] [Fin (1 / 100)] [Fin (1 / 10)]
        (expand_dims1 [Fin 100]) (expand_dims1 [Fin (1 / 100)]) (expand_dims1 [Fin (1 / 100)])
        (False, [[Fin 100]]) = Some (converged, new) \<and>
      new ! 0 ! 0 =
        divide_no_nan
          (fmul (fmul (Fin 100) (fexp (fmul (fneg (fsub (Fin (1 / 100)) (Fin (1 / 100)))) (Fin 0))))
             (Fin (1 / 2)))
          (Fin (1 / 2)))"
proof -
  let ?ip = "\<lambda>x sp. Some (map2 (\<lambda>row vals. map (\<lambda>t. hd vals) row) x sp)"
  let ?gl = "gauss_legendre (\<lambda>n. [- sqrt (1 / 3), sqrt (1 / 3)]) (\<lambda>n. [1, 1])"
  have s1: "shape2 [[Fin 0]] 1 1" and s2: "shape2 [[Fin 100]] 1 1"
    and s3: "shape2 [[Fin (1 / 2)]] 1 1"
    by (simp_all add: shape2_def)
  have l1: "length [Fin 100] = 1" and l2: "length [Fin (1 / 100)] = 1"
    by simp_all
  have bs: "(\<lambda>knots values. Some values) [[Fin 0]] [[Fin 100]] = Some [[Fin 100]]"
    by simp
  have num: "boundary_numerator ?gl [[Fin 0]] (current_exercise_boundary_fn ?ip [[Fin 100]])
      [Fin 100] [Fin (1 / 100)] [Fin (1 / 100)] [Fin (1 / 10)] 2 = Some [[Fin (1 / 2)]]"
    by (simp add: eval_defs standard_normal_cdf_0)
  have den: "boundary_denominator ?gl [[Fin 0]] (current_exercise_boundary_fn ?ip [[Fin 100]])
      [Fin 100] [Fin (1 / 100)] [Fin (1 / 100)] [Fin (1 / 10)] 2 = Some [[Fin (1 / 2)]]"
    by (simp add: eval_defs standard_normal_cdf_0)
  have "\<exists>converged new.
      body (\<lambda>knots values. Some values) ?ip ?gl (Fin (1 / 10 ^ 10)) (Fin (1 / 10 ^ 8)) 2
        [[Fin 0]] [Fin 100] [Fin (1 / 100)] [Fin (1 / 100)] [Fin (1 / 10)]
        (expand_dims1 [Fin 100]) (expand_dims1 [Fin (1 / 100)]) (expand_dims1 [Fin (1 / 100)])
        (False, [[Fin 100]]) = Some (converged, new) \<and>
      shape2 new 1 1 \<and>
      (\<forall>i<1. \<forall>j<1.
        new ! i ! j =
          divide_no_nan
            (fmul (fmul ([Fin 100] ! i)
               (fexp (fmul (fneg (fsub ([Fin (1 / 100)] ! i) ([Fin (1 / 100)] ! i)))
                  ([[Fin 0]] ! i ! j))))
               ([[Fin (1 / 2)]] ! i ! j))
            ([[Fin (1 / 2)]] ! i ! j) \<and>
        ([[Fin (1 / 2)]] ! i ! j = Fin 0 \<longrightarrow> new ! i ! j = Fin 0))"
    by (rule body_new_boundary_points
        [where build_spline = "\<lambda>knots values. Some values" and sp = "[[Fin 100]]",
          OF s1 l1 l2 l2 s2 _ num den s3 s3]) simp
  then show ?thesis
    using s1 s2 s3 num den by fastforce
qed

lemma concat_tab2_nonempty: "0 < m \<Longrightarrow> 0 < n \<Longrightarrow> concat (tab2 m n g) \<noteq> []"
  by (cases m; cases n) (simp_all add: tab2_def tab1_def upt_conv_Cons del: upt_Suc)

lemma while_loop_converged: "while_loop cond f (True, x) d = Some (True, x)"
  by (cases d) (simp_all add: cond_def)

lemma shape2_two_one: "shape2 t 2 1 \<Longrightarrow> t = [[t ! 0 ! 0], [t ! 1 ! 0]]"
  by (drule shape2_tab2_nth)
    (simp add: tab2_def tab1_def numeral_2_eq_2 upt_conv_Cons del: upt_Suc)

lemma shape2_one_two: "shape2 t 1 2 \<Longrightarrow> t = [[t ! 0 ! 0, t ! 0 ! 1]]"
  by (drule shape2_tab2_nth)
    (simp add: tab2_def tab1_def numeral_2_eq_2 upt_conv_Cons del: upt_Suc)

lemma four_mod_two: "Suc (Suc (Suc (Suc 0))) mod Suc (Suc 0) = 0"
  by (simp add: mod_Suc)

lemma body_example_rows:
  "body (\<lambda>knots values. Some values)
     (\<lambda>x sp. Some (map2 (\<lambda>row vals. map (\<lambda>t. hd vals) row) x sp))
     (gauss_legendre (\<lambda>n. [- sqrt (1 / 3), sqrt (1 / 3)]) (\<lambda>n. [1, 1]))
     (Fin (1 / 10 ^ 10)) (Fin (1 / 10 ^ 8)) 2
     [[Fin 0], [Fin 0]] [Fin 100, Fin 200] [Fin (1 / 100), Fin (2 / 100)]
     [Fin (1 / 100), Fin (2 / 100)] [Fin (1 / 10), Fin (15 / 100)]
     [[Fin 100], [Fin 200]] [[Fin (1 / 100)], [Fin (2 / 100)]] [[Fin (1 / 100)], [Fin (2 / 100)]]
     (False, [[Fin 100], [Fin 150]]) =
   Some (False, [[Fin 100], [Fin 200]])"
  by (simp add: body_def eval_defs Let_def four_mod_two standard_normal_cdf_0 reduce_max_def
      fmaximum_def)

lemma body_example_nan:
  "body (\<lambda>knots values. Some values)
     (\<lambda>x sp. Some (map2 (\<lambda>row vals. map (\<lambda>t. hd vals) row) x sp))
     (gauss_legendre (\<lambda>n. [- sqrt (1 / 3), sqrt (1 / 3)]) (\<lambda>n. [1, 1]))
     (Fin (1 / 10 ^ 10)) (Fin (1 / 10 ^ 8)) 2
     [[Fin 0, Fin 1]] [Fin 100] [Fin 0] [Fin (1 / 100)] [Fin (1 / 10)]
     [[Fin 100]] [[Fin 0]] [[Fin (1 / 100)]]
     (False, [[Fin 0, Fin 0]]) =
   Some (False, [[Fin 100, NaN]])"
proof -
  have "sqrt (1 / 3) < 1" and "sqrt 3 \<noteq> 1" and "sqrt (1 / 3) \<noteq> 1"
    by (simp_all add: real_sqrt_divide)
  then show ?thesis
    by (simp add: body_def eval_defs Let_def four_mod_two standard_normal_cdf_def d_plus_def
        SQRT_2_def
        reduce_max_def fmaximum_def real_sqrt_divide field_simps erf_0)
qed


text \<open>
  C5. After a run of \<open>body\<close> on samples of shape \<open>[m, n]\<close>, the flag \<open>converged\<close> is
  \<open>relative_error \<le> tolerance\<close>, where \<open>relative_error\<close> is \<open>reduce_max\<close> of the
  tensor of \<open>|new - current| / (|new| + epsilon)\<close> over all rows and grid points: the
  greatest of its elements when none is NaN, and NaN as soon as one element is NaN, in which
  case the run is not converged; \<open>epsilon\<close> is \<open>1e-6\<close> for \<open>float32\<close> and \<open>1e-10\<close> for
  \<open>float64\<close>; and a loop that is not converged goes on with the new samples.
\<close>

theorem body_convergence_decision:
  assumes "shape2 current m n" and "shape2 new m n" and "0 < m" and "0 < n"
    and "body build_spline interpolate integrate eps tol npts tau_grid k r q sigma
           k_exp r_exp q_exp (c, current) = Some (converged, new)"
  shows "epsilon_for Float32 = Fin (1 / 10 ^ 6) \<and> epsilon_for Float64 = Fin (1 / 10 ^ 10) \<and>
    (\<exists>errors. shape2 errors m n \<and>
       (\<forall>i<m. \<forall>j<n. errors ! i ! j =
          fdiv (fabs (fsub (new ! i ! j) (current ! i ! j))) (fadd (fabs (new ! i ! j)) eps)) \<and>
       ((\<forall>x \<in> set (concat errors). x \<noteq> NaN) \<longrightarrow>
          reduce_max errors \<in> set (concat errors) \<and>
          (\<forall>x \<in> set (concat errors). fle x (reduce_max errors))) \<and>
       (NaN \<in> set (concat errors) \<longrightarrow> reduce_max errors = NaN \<and> \<not> converged) \<and>
       converged = fle (reduce_max errors) tol) \<and>
    (\<forall>f d. f (False, current) = Some (converged, new) \<longrightarrow>
       while_loop cond f (False, current) (Suc d) =
         (if converged then Some (converged, new)
          else while_loop cond f (converged, new) d))"
proof -
  define cur' where "cur' = (\<lambda>i j. current ! i ! j)"
  define new' where "new' = (\<lambda>i j. new ! i ! j)"
  have cur: "current = tab2 m n cur'" and new: "new = tab2 m n new'"
    unfolding cur'_def new'_def using assms(1,2) by (simp_all add: shape2_tab2_nth [symmetric])
  let ?E = "tab2 m n (\<lambda>i j. fdiv (fabs (fsub (new' i j) (cur' i j))) (fadd (fabs (new' i j)) eps))"
  have conv: "converged = fle (reduce_max ?E) tol"
    using assms(5) unfolding cur new by (rule body_errors)
  have mx: "(\<forall>x \<in> set (concat ?E). x \<noteq> NaN) \<longrightarrow>
      reduce_max ?E \<in> set (concat ?E) \<and> (\<forall>x \<in> set (concat ?E). fle x (reduce_max ?E))"
    using reduce_max_is_maximum [OF concat_tab2_nonempty [OF assms(3,4)]] by blast
  have nan: "NaN \<in> set (concat ?E) \<longrightarrow> reduce_max ?E = NaN \<and> \<not> converged"
    using reduce_max_NaN [of ?E] conv by simp
  have el: "\<forall>i<m. \<forall>j<n. ?E ! i ! j =
      fdiv (fabs (fsub (new ! i ! j) (current ! i ! j))) (fadd (fabs (new ! i ! j)) eps)"
    by (simp add: cur'_def new'_def)
  have ex: "\<exists>errors. shape2 errors m n \<and>
       (\<forall>i<m. \<forall>j<n. errors ! i ! j =
          fdiv (fabs (fsub (new ! i ! j) (current ! i ! j))) (fadd (fabs (new ! i ! j)) eps)) \<and>
       ((\<forall>x \<in> set (concat errors). x \<noteq> NaN) \<longrightarrow>
          reduce_max errors \<in> set (concat errors) \<and>
          (\<forall>x \<in> set (concat errors). fle x (reduce_max errors))) \<and>
       (NaN \<in> set (concat errors) \<longrightarrow> reduce_max errors = NaN \<and> \<not> converged) \<and>
       converged = fle (reduce_max errors) tol"
    using conv mx nan el shape2_tab2 [of m n]
    by (intro exI [of _ ?E] conjI) assumption+
  have loop: "\<forall>f d. f (False, current) = Some (converged, new) \<longrightarrow>
       while_loop cond f (False, current) (Suc d) =
         (if converged then Some (converged, new)
          else while_loop cond f (converged, new) d)"
    by (auto simp: cond_def while_loop_converged)
  show ?thesis
    using ex loop by (simp add: epsilon_for_def)
qed

theorem body_convergence_decision_witness:
  "shape2 [[Fin 100], [Fin 150]] 2 1 \<and> shape2 [[Fin 100], [Fin 200]] 2 1 \<and>
   body (\<lambda>knots values. Some values)
     (\<lambda>x sp. Some (map2 (\<lambda>row vals. map (\<lambda>t. hd vals) row) x sp))
     (gauss_legendre (\<lambda>n. [- sqrt (1 / 3), sqrt (1 / 3)]) (\<lambda>n. [1, 1]))
     (Fin (1 / 10 ^ 10)) (Fin (1 / 10 ^ 8)) 2
     [[Fin 0], [Fin 0]] [Fin 100, Fin 200] [Fin (1 / 100), Fin (2 / 100)]
     [Fin (1 / 100), Fin (2 / 100)] [Fin (1 / 10), Fin (15 / 100)]
     [[Fin 100], [Fin 200]] [[Fin (1 / 100)], [Fin (2 / 100)]] [[Fin (1 / 100)], [Fin (2 / 100)]]
     (False, [[Fin 100], [Fin 150]]) =
   Some (False, [[Fin 100], [Fin 200]]) \<and>
   (\<exists>errors. errors = [[Fin 0], [Fin (50 / (200 + 1 / 10 ^ 10))]] \<and>
      reduce_max errors = Fin (50 / (200 + 1 / 10 ^ 10)) \<and>
      False = fle (reduce_max errors) (Fin (1 / 10 ^ 8))) \<and>
   shape2 [[Fin 0, Fin 0]] 1 2 \<and> shape2 [[Fin 100, NaN]] 1 2 \<and>
   body (\<lambda>knots values. Some values)
     (\<lambda>x sp. Some (map2 (\<lambda>row vals. map (\<lambda>t. hd vals) row) x sp))
     (gauss_legendre (\<lambda>n. [- sqrt (1 / 3), sqrt (1 / 3)]) (\<lambda>n. [1, 1]))
     (Fin (1 / 10 ^ 10)) (Fin (1 / 10 ^ 8)) 2
     [[Fin 0, Fin 1]] [Fin 100] [Fin 0] [Fin (1 / 100)] [Fin (1 / 10)]
     [[Fin 100]] [[Fin 0]] [[Fin (1 / 100)]]
     (False, [[Fin 0, Fin 0]]) =
   Some (False, [[Fin 100, NaN]]) \<and>
   (\<exists>errors. errors = [[Fin (100 / (100 + 1 / 10 ^ 10)), NaN]] \<and>
      reduce_max errors = NaN \<and>
      False = fle (reduce_max errors) (Fin (1 / 10 ^ 8)))"
proof -
  have s1: "shape2 [[Fin 100], [Fin 150]] 2 1" and s2: "shape2 [[Fin 100], [Fin 200]] 2 1"
    and s3: "shape2 [[Fin 0, Fin 0]] 1 2" and s4: "shape2 [[Fin 100, NaN]] 1 2"
    by (simp_all add: shape2_def)
  have p: "(0::nat) < 2" "(0::nat) < 1"
    by simp_all
  obtain E where E: "shape2 E 2 1"
    and el: "\<forall>i<2. \<forall>j<1. E ! i ! j =
      fdiv (fabs (fsub ([[Fin 100], [Fin 200]] ! i ! j) ([[Fin 100], [Fin 150]] ! i ! j)))
        (fadd (fabs ([[Fin 100], [Fin 200]] ! i ! j)) (Fin (1 / 10 ^ 10)))"
    and mx: "(\<forall>x \<in> set (concat E). x \<noteq> NaN) \<longrightarrow>
      reduce_max E \<in> set (concat E) \<and> (\<forall>x \<in> set (concat E). fle x (reduce_max E))"
    and conv: "False = fle (reduce_max E) (Fin (1 / 10 ^ 8))"
    using body_convergence_decision [OF s1 s2 p(1) p(2) body_example_rows] by blast
  have "E ! 0 ! 0 = Fin 0" and "E ! 1 ! 0 = Fin (50 / (200 + 1 / 10 ^ 10))"
    using el by (simp_all add: fsub_def)
  then have EE: "E = [[Fin 0], [Fin (50 / (200 + 1 / 10 ^ 10))]]"
    using shape2_two_one [OF E] by simp
  have "reduce_max E \<in> {Fin 0, Fin (50 / (200 + 1 / 10 ^ 10))}"
    and "fle (Fin (50 / (200 + 1 / 10 ^ 10))) (reduce_max E)"
    using mx unfolding EE by simp_all
  then have rm: "reduce_max E = Fin (50 / (200 + 1 / 10 ^ 10))"
    by auto
  have a: "\<exists>errors. errors = [[Fin 0], [Fin (50 / (200 + 1 / 10 ^ 10))]] \<and>
      reduce_max errors = Fin (50 / (200 + 1 / 10 ^ 10)) \<and>
      False = fle (reduce_max errors) (Fin (1 / 10 ^ 8))"
    using EE rm conv by (intro exI [of _ E] conjI)
  obtain F where F: "shape2 F 1 2"
    and fl: "\<forall>i<1. \<forall>j<2. F ! i ! j =
      fdiv (fabs (fsub ([[Fin 100, NaN]] ! i ! j) ([[Fin 0, Fin 0]] ! i ! j)))
        (fadd (fabs ([[Fin 100, NaN]] ! i ! j)) (Fin (1 / 10 ^ 10)))"
    and nan: "NaN \<in> set (concat F) \<longrightarrow> reduce_max F = NaN \<and> \<not> False"
    and convF: "False = fle (reduce_max F) (Fin (1 / 10 ^ 8))"
    using body_convergence_decision [OF s3 s4 p(2) p(1) body_example_nan] by blast
  have "F ! 0 ! 0 = Fin (100 / (100 + 1 / 10 ^ 10))" and "F ! 0 ! 1 = NaN"
    using fl by (simp_all add: fsub_def)
  then have FF: "F = [[Fin (100 / (100 + 1 / 10 ^ 10)), NaN]]"
    using shape2_one_two [OF F] by simp
  have rn: "reduce_max F = NaN"
    using nan unfolding FF by simp
  have b: "\<exists>errors. errors = [[Fin (100 / (100 + 1 / 10 ^ 10)), NaN]] \<and>
      reduce_max errors = NaN \<and>
      False = fle (reduce_max errors) (Fin (1 / 10 ^ 8))"
    using FF rn convF by (intro exI [of _ F] conjI)
  show ?thesis
    by (intro conjI) (rule s1 s2 s3 s4 body_example_rows body_example_nan a b)+
qed


section \<open>The boundary ratio of the integrands\<close>

lemma fdiv_zero_not_finite: "\<not> is_finite (fdiv x (Fin 0))"
  by (cases x) simp_all

text \<open>
  C2, as stated, fails: the ratio is NaN for a boundary that is 0 everywhere, an
  infinity for a boundary that is 0 at \<open>u\<close> only, and the two integrands are NaN
  with it.
\<close>

theorem ratio_zero_counterexample:
  "ratio (\<lambda>x. Some (map3d (\<lambda>t. Fin 0) x)) [[[Fin 1]]] [[[Fin (1 / 2)]]] = Some [[[NaN]]] \<and>
   ratio (\<lambda>x. Some x) [[[Fin 1]]] [[[Fin 0]]] = Some [[[PInf]]] \<and>
   numerator_func (\<lambda>x. Some (map3d (\<lambda>t. Fin 0) x)) [[[Fin 1]]]
     [[[Fin (1 / 100)]]] [[[Fin (1 / 100)]]] [[[Fin (1 / 10)]]] [[[Fin (1 / 2)]]] = Some [[[NaN]]] \<and>
   denominator_func (\<lambda>x. Some (map3d (\<lambda>t. Fin 0) x)) [[[Fin 1]]]
     [[[Fin (1 / 100)]]] [[[Fin (1 / 100)]]] [[[Fin (1 / 10)]]] [[[Fin (1 / 2)]]] = Some [[[NaN]]]"
  by (simp add: eval_defs standard_normal_cdf_def)

text \<open>
  C2, amended. In both integrands the ratio of the boundary at the grid point and at
  the node is the plain elementwise division, under broadcasting of the grid axis;
  where \<open>b u\<close> is 0 the ratio is not a finite number.
\<close>

theorem ratio_plain_division:
  assumes "b tau_grid_exp = Some b_tau" and "b u = Some b_u"
    and "shape3 b_tau m n 1" and "shape3 b_u m n p"
  shows "\<exists>result. ratio b tau_grid_exp u = Some result \<and> shape3 result m n p \<and>
     (\<forall>i<m. \<forall>j<n. \<forall>l<p.
        result ! i ! j ! l = fdiv (b_tau ! i ! j ! 0) (b_u ! i ! j ! l) \<and>
        (b_u ! i ! j ! l = Fin 0 \<longrightarrow> \<not> is_finite (result ! i ! j ! l)))"
proof -
  define bt where "bt = (\<lambda>i j l. b_tau ! i ! j ! l)"
  define bu where "bu = (\<lambda>i j l. b_u ! i ! j ! l)"
  have t: "b_tau = tab3 m n (Suc 0) bt" and u: "b_u = tab3 m n p bu"
    unfolding bt_def bu_def using assms(3,4) by (simp_all add: shape3_tab3_nth [symmetric])
  have "ratio b tau_grid_exp u = Some (tab3 m n p (\<lambda>i j l. fdiv (bt i j 0) (bu i j l)))"
    using assms(1,2) unfolding t u by (simp add: ratio_def)
  then show ?thesis
    by (auto simp: bt_def bu_def fdiv_zero_not_finite)
qed

theorem ratio_plain_division_witness:
  "(\<lambda>x. Some (map3d (\<lambda>t. Fin 0) x)) [[[Fin 1]]] = Some [[[Fin 0]]] \<and>
   (\<lambda>x. Some (map3d (\<lambda>t. Fin 0) x)) [[[Fin (1 / 2)]]] = Some [[[Fin 0]]] \<and>
   shape3 [[[Fin 0]]] 1 1 1 \<and>
   (\<exists>result. ratio (\<lambda>x. Some (map3d (\<lambda>t. Fin 0) x)) [[[Fin 1]]] [[[Fin (1 / 2)]]] = Some result \<and>
      result ! 0 ! 0 ! 0 = fdiv (Fin 0) (Fin 0) \<and> \<not> is_finite (result ! 0 ! 0 ! 0))"
proof -
  let ?b = "\<lambda>x. Some (map3d (\<lambda>t. Fin 0) x)"
  have b1: "?b [[[Fin 1]]] = Some [[[Fin 0]]]" and b2: "?b [[[Fin (1 / 2)]]] = Some [[[Fin 0]]]"
    by (simp_all add: map3d_def)
  have s: "shape3 [[[Fin 0]]] 1 1 1"
    by (simp add: shape3_def shape2_def)
  show ?thesis
    using ratio_plain_division [of ?b, OF b1 b2 s s] b1 b2 s by fastforce
qed

section \<open>The denominator of an option without dividend\<close>

lemma fmul_zero_finite: "is_finite g \<Longrightarrow> fmul (Fin 0) g = Fin 0"
  by (cases g) simp_all

lemma fadd_zero_right: "fadd x (Fin 0) = x"
  by (cases x) simp_all

text \<open>
  C10, as stated, fails: with \<open>q = 0\<close> and a boundary that is 0 everywhere the
  integral is NaN, the product \<open>0 * NaN\<close> is NaN and so is the denominator, while its
  first term is 0.
\<close>

theorem boundary_denominator_zero_dividend_counterexample:
  "boundary_denominator
     (gauss_legendre (\<lambda>n. [- sqrt (1 / 3), sqrt (1 / 3)]) (\<lambda>n. [1, 1])) [[Fin 1]]
     (\<lambda>x. Some (map3d (\<lambda>t. Fin 0) x)) [Fin 100] [Fin (1 / 100)] [Fin 0] [Fin (1 / 10)] 2 =
     Some [[NaN]] \<and>
   standard_normal_cdf
     (d_plus (Fin 1) (fdiv (Fin 0) (Fin 100)) (Fin (1 / 100)) (Fin 0) (Fin (1 / 10))) = Fin 0"
proof -
  have "sqrt (1 / 3) < 1" and "sqrt 3 \<noteq> 1" and "sqrt (1 / 3) \<noteq> 1"
    by (simp_all add: real_sqrt_divide)
  then show ?thesis
    by (simp add: eval_defs standard_normal_cdf_def d_plus_def SQRT_2_def real_sqrt_divide
        field_simps)
qed

text \<open>
  C10, amended. For a row with \<open>q[i] = 0\<close>, the denominator is its first term
  \<open>Phi (d_plus (tau_grid[i,j], b(tau_grid)[i,j] / K[i], r[i], 0, sigma[i]))\<close> at every grid
  point where the value of the quadrature is finite.
\<close>

theorem boundary_denominator_zero_dividend:
  assumes "shape2 tau_grid m n" and "length k = m" and "length r = m" and "length q = m"
    and "length sigma = m"
    and "b (expand_dims2 tau_grid) = Some b_tau" and "shape3 b_tau m n 1"
    and "integrate
           (denominator_func b (expand_dims2 tau_grid) (newaxis1 (expand_dims1 r))
              (newaxis1 (expand_dims1 q)) (newaxis1 (expand_dims1 sigma)))
           (zeros_like tau_grid) tau_grid npts = Some integral"
    and "shape2 integral m n"
  shows "\<exists>D. boundary_denominator integrate tau_grid b k r q sigma npts = Some D \<and>
     shape2 D m n \<and>
     (\<forall>i<m. \<forall>j<n. q ! i = Fin 0 \<longrightarrow> is_finite (integral ! i ! j) \<longrightarrow>
        D ! i ! j =
          standard_normal_cdf
            (d_plus (tau_grid ! i ! j) (fdiv (b_tau ! i ! j ! 0) (k ! i)) (r ! i) (Fin 0)
               (sigma ! i)))"
proof -
  define tau' where "tau' = (\<lambda>i j. tau_grid ! i ! j)"
  define bt where "bt = (\<lambda>i j l. b_tau ! i ! j ! l)"
  define G where "G = (\<lambda>i j. integral ! i ! j)"
  define k' where "k' = (\<lambda>i. k ! i)"
  define r' where "r' = (\<lambda>i. r ! i)"
  define q' where "q' = (\<lambda>i. q ! i)"
  define s' where "s' = (\<lambda>i. sigma ! i)"
  have tau: "tau_grid = tab2 m n tau'" and G: "integral = tab2 m n G"
    unfolding tau'_def G_def using assms(1,9) by (simp_all add: shape2_tab2_nth [symmetric])
  have bt: "b_tau = tab3 m n (Suc 0) bt"
    unfolding bt_def using assms(7) by (simp add: shape3_tab3_nth [symmetric])
  have k: "k = tab1 m k'" and r: "r = tab1 m r'" and q: "q = tab1 m q'"
    and s: "sigma = tab1 m s'"
    unfolding k'_def r'_def q'_def s'_def using assms(2,3,4,5) by (simp_all add: tab1_nth)
  have "boundary_denominator integrate (tab2 m n tau') b (tab1 m k') (tab1 m r') (tab1 m q')
      (tab1 m s') npts =
    Some (tab2 m n (\<lambda>i j. fadd
       (standard_normal_cdf (d_plus (tau' i j) (fdiv (bt i j 0) (k' (bidx m i)))
          (r' (bidx m i)) (q' (bidx m i)) (s' (bidx m i))))
       (fmul (q' (bidx m i)) (G i j))))"
  proof (rule boundary_denominator_tab)
    show "b (tab3 m n (Suc 0) (\<lambda>i j k. tau' i j)) = Some (tab3 m n (Suc 0) bt)"
      using assms(6) unfolding tau bt by simp
    show "integrate (denominator_func b (tab3 m n (Suc 0) (\<lambda>i j k. tau' i j))
           (tab3 m (Suc 0) (Suc 0) (\<lambda>i j k. r' i)) (tab3 m (Suc 0) (Suc 0) (\<lambda>i j k. q' i))
           (tab3 m (Suc 0) (Suc 0) (\<lambda>i j k. s' i)))
           (tab2 m n (\<lambda>i j. Fin 0)) (tab2 m n tau') npts = Some (tab2 m n G)"
      using assms(8) unfolding tau G r q s by simp
  qed simp_all
  then have "boundary_denominator integrate tau_grid b k r q sigma npts =
    Some (tab2 m n (\<lambda>i j. fadd
       (standard_normal_cdf (d_plus (tau' i j) (fdiv (bt i j 0) (k' i)) (r' i) (q' i) (s' i)))
       (fmul (q' i) (G i j))))"
    unfolding tau k r q s by simp
  then show ?thesis
    by (auto simp: tau'_def bt_def G_def k'_def r'_def q'_def s'_def fmul_zero_finite
        fadd_zero_right)
qed


theorem boundary_denominator_zero_dividend_witness:
  "shape2 [[Fin 1]] 1 1 \<and> length [Fin 100] = 1 \<and>
   (\<lambda>x. Some (map3d (\<lambda>t. Fin 100) x)) (expand_dims2 [[Fin 1]]) = Some [[[Fin 100]]] \<and>
   shape3 [[[Fin 100]]] 1 1 1 \<and>
   gauss_legendre (\<lambda>n. [0]) (\<lambda>n. [2])
     (denominator_func (\<lambda>x. Some (map3d (\<lambda>t. Fin 100) x)) (expand_dims2 [[Fin 1]])
        (newaxis1 (expand_dims1 [Fin (1 / 100)])) (newaxis1 (expand_dims1 [Fin 0]))
        (newaxis1 (expand_dims1 [Fin (1 / 10)])))
     (zeros_like [[Fin 1]]) [[Fin 1]] 1 =
     Some [[standard_normal_cdf (d_plus (Fin (1 / 2)) (Fin 1) (Fin (1 / 100)) (Fin 0) (Fin (1 / 10)))]] \<and>
   [Fin 0] ! 0 = Fin 0 \<and>
   is_finite (standard_normal_cdf (d_plus (Fin (1 / 2)) (Fin 1) (Fin (1 / 100)) (Fin 0) (Fin (1 / 10)))) \<and>
   (\<exists>D. boundary_denominator (gauss_legendre (\<lambda>n. [0]) (\<lambda>n. [2])) [[Fin 1]]
        (\<lambda>x. Some (map3d (\<lambda>t. Fin 100) x)) [Fin 100] [Fin (1 / 100)] [Fin 0] [Fin (1 / 10)] 1 =
        Some D \<and>
      D ! 0 ! 0 =
        standard_normal_cdf
          (d_plus (Fin 1) (fdiv (Fin 100) (Fin 100)) (Fin (1 / 100)) (Fin 0) (Fin (1 / 10))))"
proof -
  let ?b = "\<lambda>x. Some (map3d (\<lambda>t. Fin 100) x)"
  let ?G = "standard_normal_cdf (d_plus (Fin (1 / 2)) (Fin 1) (Fin (1 / 100)) (Fin 0) (Fin (1 / 10)))"
  have s: "shape2 [[Fin 1]] 1 1" and sb: "shape3 [[[Fin 100]]] 1 1 1" and sg: "shape2 [[?G]] 1 1"
    by (simp_all add: shape2_def shape3_def)
  have l: "length [Fin 100] = 1" "length [Fin (1 / 100)] = 1" "length [Fin 0] = 1"
    "length [Fin (1 / 10)] = 1"
    by simp_all
  have b: "?b (expand_dims2 [[Fin 1]]) = Some [[[Fin 100]]]"
    by (simp add: map3d_def expand_dims2_def)
  have g: "gauss_legendre (\<lambda>n. [0]) (\<lambda>n. [2])
     (denominator_func ?b (expand_dims2 [[Fin 1]])
        (newaxis1 (expand_dims1 [Fin (1 / 100)])) (newaxis1 (expand_dims1 [Fin 0]))
        (newaxis1 (expand_dims1 [Fin (1 / 10)])))
     (zeros_like [[Fin 1]]) [[Fin 1]] 1 = Some [[?G]]"
    by (simp add: eval_defs standard_normal_cdf_def d_plus_def SQRT_2_def)
  have f: "is_finite ?G"
    by (simp add: standard_normal_cdf_def d_plus_def SQRT_2_def divide_no_nan_def fsub_def)
  note th = boundary_denominator_zero_dividend [where b = ?b and b_tau = "[[[Fin 100]]]"
      and integral = "[[?G]]" and integrate = "gauss_legendre (\<lambda>n. [0]) (\<lambda>n. [2])"
      and npts = 1, OF s l _ sb _ sg, OF b g]
  show ?thesis
    using th s l b sb g f by fastforce
qed

section \<open>The evaluators at a grid point 0\<close>

lemma gauss_legendre_tab:
  assumes "length (roots np) = p" and "length (weights np) = p"
    and "func (tab3 m n p (\<lambda>i j l.
           fdiv (fadd (fadd (fmul (fsub (up i j) (lo i j)) (Fin (roots np ! l))) (up i j)) (lo i j))
             (Fin 2))) = Some (tab3 m n p fv)"
  shows "gauss_legendre roots weights func (tab2 m n lo) (tab2 m n up) np =
    Some (tab2 m n (\<lambda>i j. foldl fadd (Fin 0) (tab1 p (\<lambda>l.
       fdiv (fmul (fmul (fv i j l) (fsub (up i j) (lo i j))) (Fin (weights np ! l))) (Fin 2)))))"
proof -
  have r: "[[map Fin (roots np)]] = tab3 (Suc 0) (Suc 0) p (\<lambda>i j l. Fin (roots np ! l))"
    using assms(1) by (simp add: singleton_tab3)
  have w: "[[map Fin (weights np)]] = tab3 (Suc 0) (Suc 0) p (\<lambda>i j l. Fin (weights np ! l))"
    using assms(2) by (simp add: singleton_tab3)
  show ?thesis
    using assms(3) by (simp add: gauss_legendre_def r w)
qed

lemma b_0_tab:
  assumes "par_ok m mk" and "par_ok m mr" and "par_ok m mq"
  shows "b_0 (tab2 mk (Suc 0) ke) (tab2 mr (Suc 0) re) (tab2 mq (Suc 0) qe) (tab3 m n p x) =
    Some (tab3 m n p (\<lambda>i j l. fmul (fmul (Fin 1) (ke (bidx mk i) 0))
       (fminimum (Fin 1) (fdiv (re (bidx mr i) 0) (qe (bidx mq i) 0)))))"
  using assms unfolding par_ok_def
  by (elim disjE; simp add: b_0_def)

lemma foldl_fadd_zeros: "foldl fadd (Fin 0) (tab1 p (\<lambda>l. Fin 0)) = Fin 0"
  by (induction p) (simp_all add: tab1_def)

lemma d_plus_tau0: "d_plus (Fin 0) z r q (Fin s) = Fin 0"
  by (simp add: d_plus_def divide_no_nan_def)

lemma d_minus_tau0: "d_minus (Fin 0) z r q (Fin s) = Fin 0"
  by (simp add: d_minus_def d_plus_tau0 fsub_def)


lemma half_zero: "fadd (Fin (1 / 2)) (fmul (Fin a) (Fin 0)) = Fin (1 / 2)"
  by simp

text \<open>
  C7. With the Gauss--Legendre rule of the spec, finite \<open>r\<close>, \<open>q\<close> and \<open>sigma\<close> and
  the initial guess \<open>b_0\<close>, both evaluators return exactly \<open>0.5\<close> at every grid point
  where \<open>tau_grid\<close> is 0: the first term is \<open>Phi 0\<close> and the quadrature over
  \<open>[0, 0]\<close> is 0.
\<close>

theorem evaluators_half_at_zero:
  assumes "shape2 tau_grid m n" and "length k = m" and "length rs = m" and "length qs = m"
    and "length ss = m" and "length (roots np) = length (weights np)"
  shows "\<exists>N D integral_N integral_D.
     boundary_numerator (gauss_legendre roots weights) tau_grid
       (b_0 (expand_dims1 k) (expand_dims1 (map Fin rs)) (expand_dims1 (map Fin qs)))
       k (map Fin rs) (map Fin qs) (map Fin ss) np = Some N \<and>
     boundary_denominator (gauss_legendre roots weights) tau_grid
       (b_0 (expand_dims1 k) (expand_dims1 (map Fin rs)) (expand_dims1 (map Fin qs)))
       k (map Fin rs) (map Fin qs) (map Fin ss) np = Some D \<and>
     gauss_legendre roots weights
       (numerator_func
          (b_0 (expand_dims1 k) (expand_dims1 (map Fin rs)) (expand_dims1 (map Fin qs)))
          (expand_dims2 tau_grid) (newaxis1 (expand_dims1 (map Fin rs)))
          (newaxis1 (expand_dims1 (map Fin qs))) (newaxis1 (expand_dims1 (map Fin ss))))
       (zeros_like tau_grid) tau_grid np = Some integral_N \<and>
     gauss_legendre roots weights
       (denominator_func
          (b_0 (expand_dims1 k) (expand_dims1 (map Fin rs)) (expand_dims1 (map Fin qs)))
          (expand_dims2 tau_grid) (newaxis1 (expand_dims1 (map Fin rs)))
          (newaxis1 (expand_dims1 (map Fin qs))) (newaxis1 (expand_dims1 (map Fin ss))))
       (zeros_like tau_grid) tau_grid np = Some integral_D \<and>
     shape2 N m n \<and> shape2 D m n \<and>
     (\<forall>i<m. \<forall>j<n. tau_grid ! i ! j = Fin 0 \<longrightarrow>
        N ! i ! j = Fin (1 / 2) \<and> D ! i ! j = Fin (1 / 2) \<and>
        integral_N ! i ! j = Fin 0 \<and> integral_D ! i ! j = Fin 0 \<and>
        (\<forall>z. standard_normal_cdf
           (d_minus (tau_grid ! i ! j) z (Fin (rs ! i)) (Fin (qs ! i)) (Fin (ss ! i))) =
           Fin (1 / 2) \<and>
         standard_normal_cdf
           (d_plus (tau_grid ! i ! j) z (Fin (rs ! i)) (Fin (qs ! i)) (Fin (ss ! i))) =
           Fin (1 / 2)))"
proof -
  define p where "p = length (weights np)"
  define tau' where "tau' = (\<lambda>i j. tau_grid ! i ! j)"
  define k' where "k' = (\<lambda>i. k ! i)"
  define r' where "r' = (\<lambda>i. Fin (rs ! i))"
  define q' where "q' = (\<lambda>i. Fin (qs ! i))"
  define s' where "s' = (\<lambda>i. Fin (ss ! i))"
  define B where "B = (\<lambda>i. fmul (fmul (Fin 1) (k' i)) (fminimum (Fin 1) (fdiv (r' i) (q' i))))"
  define b where "b = b_0 (tab2 m (Suc 0) (\<lambda>i j. k' i)) (tab2 m (Suc 0) (\<lambda>i j. r' i))
      (tab2 m (Suc 0) (\<lambda>i j. q' i))"
  define grid where "grid = (\<lambda>i j l.
      fdiv (fadd (fadd (fmul (fsub (tau' i j) (Fin 0)) (Fin (roots np ! l))) (tau' i j)) (Fin 0))
        (Fin 2))"
  have tau: "tau_grid = tab2 m n tau'"
    unfolding tau'_def using assms(1) by (simp add: shape2_tab2_nth [symmetric])
  have k: "k = tab1 m k'"
    unfolding k'_def using assms(2) by (simp add: tab1_nth)
  have r: "map Fin rs = tab1 m r'" and q: "map Fin qs = tab1 m q'" and s: "map Fin ss = tab1 m s'"
    unfolding r'_def q'_def s'_def using assms(3,4,5)
    by (auto intro!: nth_equalityI)
  have lr: "length (roots np) = p" and lw: "length (weights np) = p"
    using assms(6) by (simp_all add: p_def)
  have bx: "b (tab3 m n c x) = Some (tab3 m n c (\<lambda>i j l. B i))" for c x
    unfolding b_def B_def by (simp add: b_0_tab)
  define fvN where "fvN = (\<lambda>i j l. fmul (fexp (fmul (r' i) (grid i j l)))
       (standard_normal_cdf (d_minus (fsub (tau' i j) (grid i j l)) (fdiv (B i) (B i))
          (r' i) (q' i) (s' i))))"
  have fN: "numerator_func b (tab3 m n (Suc 0) (\<lambda>i j l. tau' i j))
      (tab3 m (Suc 0) (Suc 0) (\<lambda>i j l. r' i)) (tab3 m (Suc 0) (Suc 0) (\<lambda>i j l. q' i))
      (tab3 m (Suc 0) (Suc 0) (\<lambda>i j l. s' i)) (tab3 m n p grid) = Some (tab3 m n p fvN)"
    unfolding fvN_def
    using numerator_func_tab3 [where b = b and m = m and n = n and p = p and u = grid
        and tau = "\<lambda>i j l. tau' i j" and bt = "\<lambda>i j l. B i" and bu = "\<lambda>i j l.  B i"
        and mr = m and mq = m and ms = m and r = "\<lambda>i j l. r' i" and q = "\<lambda>i j l. q' i"
        and sigma = "\<lambda>i j l. s' i"]
    by (simp add: bx)
  have gN: "gauss_legendre roots weights
      (numerator_func b (tab3 m n (Suc 0) (\<lambda>i j l. tau' i j))
        (tab3 m (Suc 0) (Suc 0) (\<lambda>i j l. r' i)) (tab3 m (Suc 0) (Suc 0) (\<lambda>i j l. q' i))
        (tab3 m (Suc 0) (Suc 0) (\<lambda>i j l. s' i)))
      (tab2 m n (\<lambda>i j. Fin 0)) (tab2 m n tau') np =
    Some (tab2 m n (\<lambda>i j. foldl fadd (Fin 0) (tab1 p (\<lambda>l.
       fdiv (fmul (fmul (fvN i j l) (fsub (tau' i j) (Fin 0))) (Fin (weights np ! l))) (Fin 2)))))"
    using gauss_legendre_tab [where roots = roots and weights = weights and np = np and p = p
        and m = m and n = n and lo = "\<lambda>i j. Fin 0" and up = tau' and fv = fvN] lr lw fN
    by (simp add: grid_def)
  have N: "boundary_numerator (gauss_legendre roots weights) (tab2 m n tau') b
      (tab1 m k') (tab1 m r') (tab1 m q') (tab1 m s') np =
    Some (tab2 m n (\<lambda>i j. fadd
       (standard_normal_cdf (d_minus (tau' i j) (fdiv (B i) (k' i)) (r' i) (q' i) (s' i)))
       (fmul (r' i) (foldl fadd (Fin 0) (tab1 p (\<lambda>l.
          fdiv (fmul (fmul (fvN i j l) (fsub (tau' i j) (Fin 0))) (Fin (weights np ! l)))
            (Fin 2)))))))"
    using boundary_numerator_tab [where b = b and m = m and n = n and tau = tau'
        and bt = "\<lambda>i j l. B i" and mk = m and mr = m and mq = m and ms = m and k = k'
        and r = r' and q = q' and sigma = s' and integrate = "gauss_legendre roots weights" and npts = np
        and G = "\<lambda>i j. foldl fadd (Fin 0) (tab1 p (\<lambda>l.
          fdiv (fmul (fmul (fvN i j l) (fsub (tau' i j) (Fin 0))) (Fin (weights np ! l)))
            (Fin 2)))"]
    by (simp add: bx gN)
  define fvD where "fvD = (\<lambda>i j l. fmul (fexp (fmul (q' i) (grid i j l)))
       (standard_normal_cdf (d_plus (fsub (tau' i j) (grid i j l)) (fdiv (B i) (B i))
          (r' i) (q' i) (s' i))))"
  have fD: "denominator_func b (tab3 m n (Suc 0) (\<lambda>i j l. tau' i j))
      (tab3 m (Suc 0) (Suc 0) (\<lambda>i j l. r' i)) (tab3 m (Suc 0) (Suc 0) (\<lambda>i j l. q' i))
      (tab3 m (Suc 0) (Suc 0) (\<lambda>i j l. s' i)) (tab3 m n p grid) = Some (tab3 m n p fvD)"
    unfolding fvD_def
    using denominator_func_tab3 [where b = b and m = m and n = n and p = p and u = grid
        and tau = "\<lambda>i j l. tau' i j" and bt = "\<lambda>i j l. B i" and bu = "\<lambda>i j l.  B i"
        and mr = m and mq = m and ms = m and r = "\<lambda>i j l. r' i" and q = "\<lambda>i j l. q' i"
        and sigma = "\<lambda>i j l. s' i"]
    by (simp add: bx)
  have gD: "gauss_legendre roots weights
      (denominator_func b (tab3 m n (Suc 0) (\<lambda>i j l. tau' i j))
        (tab3 m (Suc 0) (Suc 0) (\<lambda>i j l. r' i)) (tab3 m (Suc 0) (Suc 0) (\<lambda>i j l. q' i))
        (tab3 m (Suc 0) (Suc 0) (\<lambda>i j l. s' i)))
      (tab2 m n (\<lambda>i j. Fin 0)) (tab2 m n tau') np =
    Some (tab2 m n (\<lambda>i j. foldl fadd (Fin 0) (tab1 p (\<lambda>l.
       fdiv (fmul (fmul (fvD i j l) (fsub (tau' i j) (Fin 0))) (Fin (weights np ! l))) (Fin 2)))))"
    using gauss_legendre_tab [where roots = roots and weights = weights and np = np and p = p
        and m = m and n = n and lo = "\<lambda>i j. Fin 0" and up = tau' and fv = fvD] lr lw fD
    by (simp add: grid_def)
  have D: "boundary_denominator (gauss_legendre roots weights) (tab2 m n tau') b
      (tab1 m k') (tab1 m r') (tab1 m q') (tab1 m s') np =
    Some (tab2 m n (\<lambda>i j. fadd
       (standard_normal_cdf (d_plus (tau' i j) (fdiv (B i) (k' i)) (r' i) (q' i) (s' i)))
       (fmul (q' i) (foldl fadd (Fin 0) (tab1 p (\<lambda>l.
          fdiv (fmul (fmul (fvD i j l) (fsub (tau' i j) (Fin 0))) (Fin (weights np ! l)))
            (Fin 2)))))))"
    using boundary_denominator_tab [where b = b and m = m and n = n and tau = tau'
        and bt = "\<lambda>i j l. B i" and mk = m and mr = m and mq = m and ms = m and k = k'
        and r = r' and q = q' and sigma = s' and integrate = "gauss_legendre roots weights" and npts = np
        and G = "\<lambda>i j. foldl fadd (Fin 0) (tab1 p (\<lambda>l.
          fdiv (fmul (fmul (fvD i j l) (fsub (tau' i j) (Fin 0))) (Fin (weights np ! l)))
            (Fin 2)))"]
    by (simp add: bx gD)
  have z: "foldl fadd (Fin 0) (tab1 p (\<lambda>l.
      fdiv (fmul (fmul (f l) (fsub (Fin 0) (Fin 0))) (Fin (weights np ! l))) (Fin 2))) = Fin 0"
    if "\<And>l. is_finite (f l)" for f
  proof -
    have "fdiv (fmul (fmul (f l) (fsub (Fin 0) (Fin 0))) (Fin (weights np ! l))) (Fin 2) = Fin 0"
      for l using that [of l] by (cases "f l") (simp_all add: fsub_def)
    then show ?thesis
      by (simp add: foldl_fadd_zeros)
  qed
  have g0: "grid i j l = Fin 0" if "tau' i j = Fin 0" for i j l
    using that by (simp add: grid_def fsub_def)
  have finN: "is_finite (fvN i j l)" and finD: "is_finite (fvD i j l)"
    if "tau' i j = Fin 0" for i j l
    using that g0 [OF that]
    by (simp_all add: fvN_def fvD_def r'_def q'_def s'_def fsub_def d_minus_tau0 d_plus_tau0
        standard_normal_cdf_0)
  have vN: "fadd
       (standard_normal_cdf (d_minus (tau' i j) (fdiv (B i) (k' i)) (r' i) (q' i) (s' i)))
       (fmul (r' i) (foldl fadd (Fin 0) (tab1 p (\<lambda>l.
          fdiv (fmul (fmul (fvN i j l) (fsub (tau' i j) (Fin 0))) (Fin (weights np ! l)))
            (Fin 2))))) = Fin (1 / 2)" if "tau' i j = Fin 0" for i j
    using z [of "fvN i j", OF finN [OF that]]
    by (simp add: that r'_def s'_def d_minus_tau0 standard_normal_cdf_0)
  have vD: "fadd
       (standard_normal_cdf (d_plus (tau' i j) (fdiv (B i) (k' i)) (r' i) (q' i) (s' i)))
       (fmul (q' i) (foldl fadd (Fin 0) (tab1 p (\<lambda>l.
          fdiv (fmul (fmul (fvD i j l) (fsub (tau' i j) (Fin 0))) (Fin (weights np ! l)))
            (Fin 2))))) = Fin (1 / 2)" if "tau' i j = Fin 0" for i j
    using z [of "fvD i j", OF finD [OF that]]
    by (simp add: that q'_def s'_def d_plus_tau0 standard_normal_cdf_0)
  have bb: "b_0 (expand_dims1 k) (expand_dims1 (map Fin rs)) (expand_dims1 (map Fin qs)) = b"
    unfolding b_def k r q by simp
  have zN: "foldl fadd (Fin 0) (tab1 p (\<lambda>l.
       fdiv (fmul (fmul (fvN i j l) (fsub (tau' i j) (Fin 0))) (Fin (weights np ! l)))
         (Fin 2))) = Fin 0" if "tau' i j = Fin 0" for i j
    using z [of "fvN i j", OF finN [OF that]] by (simp add: that)
  have zD: "foldl fadd (Fin 0) (tab1 p (\<lambda>l.
       fdiv (fmul (fmul (fvD i j l) (fsub (tau' i j) (Fin 0))) (Fin (weights np ! l)))
         (Fin 2))) = Fin 0" if "tau' i j = Fin 0" for i j
    using z [of "fvD i j", OF finD [OF that]] by (simp add: that)
  have gN': "gauss_legendre roots weights
       (numerator_func b (expand_dims2 (tab2 m n tau')) (newaxis1 (expand_dims1 (tab1 m r')))
          (newaxis1 (expand_dims1 (tab1 m q'))) (newaxis1 (expand_dims1 (tab1 m s'))))
       (zeros_like (tab2 m n tau')) (tab2 m n tau') np =
    Some (tab2 m n (\<lambda>i j. foldl fadd (Fin 0) (tab1 p (\<lambda>l.
       fdiv (fmul (fmul (fvN i j l) (fsub (tau' i j) (Fin 0))) (Fin (weights np ! l))) (Fin 2)))))"
    using gN by simp
  have gD': "gauss_legendre roots weights
       (denominator_func b (expand_dims2 (tab2 m n tau')) (newaxis1 (expand_dims1 (tab1 m r')))
          (newaxis1 (expand_dims1 (tab1 m q'))) (newaxis1 (expand_dims1 (tab1 m s'))))
       (zeros_like (tab2 m n tau')) (tab2 m n tau') np =
    Some (tab2 m n (\<lambda>i j. foldl fadd (Fin 0) (tab1 p (\<lambda>l.
       fdiv (fmul (fmul (fvD i j l) (fsub (tau' i j) (Fin 0))) (Fin (weights np ! l))) (Fin 2)))))"
    using gD by simp
  show ?thesis
    unfolding bb unfolding tau k r q s N D gN' gD'
    using vN vD zN zD
    by (simp add: tau'_def [symmetric] d_minus_tau0 d_plus_tau0 standard_normal_cdf_0)
qed

theorem evaluators_half_at_zero_witness:
  "shape2 [[Fin 0, Fin 1]] 1 2 \<and> length [Fin 100] = 1 \<and>
   length ((\<lambda>n. [- sqrt (1 / 3), sqrt (1 / 3)]) (2::nat)) = length ((\<lambda>n. [1, 1::real]) (2::nat)) \<and>
   [[Fin 0, Fin 1]] ! 0 ! 0 = Fin 0 \<and>
   (\<exists>N D.
     boundary_numerator (gauss_legendre (\<lambda>n. [- sqrt (1 / 3), sqrt (1 / 3)]) (\<lambda>n. [1, 1]))
       [[Fin 0, Fin 1]]
       (b_0 (expand_dims1 [Fin 100]) (expand_dims1 (map Fin [1 / 100]))
          (expand_dims1 (map Fin [1 / 100])))
       [Fin 100] (map Fin [1 / 100]) (map Fin [1 / 100]) (map Fin [1 / 10]) 2 = Some N \<and>
     boundary_denominator (gauss_legendre (\<lambda>n. [- sqrt (1 / 3), sqrt (1 / 3)]) (\<lambda>n. [1, 1]))
       [[Fin 0, Fin 1]]
       (b_0 (expand_dims1 [Fin 100]) (expand_dims1 (map Fin [1 / 100]))
          (expand_dims1 (map Fin [1 / 100])))
       [Fin 100] (map Fin [1 / 100]) (map Fin [1 / 100]) (map Fin [1 / 10]) 2 = Some D \<and>
     N ! 0 ! 0 = Fin (1 / 2) \<and> D ! 0 ! 0 = Fin (1 / 2))"
proof -
  have s: "shape2 [[Fin 0, Fin 1]] 1 2"
    by (simp add: shape2_def)
  have l: "length [Fin 100] = 1" "length [1 / 100 :: real] = 1" "length [1 / 10 :: real] = 1"
    by simp_all
  have p: "length ((\<lambda>n. [- sqrt (1 / 3), sqrt (1 / 3)]) (2::nat)) =
      length ((\<lambda>n. [1, 1::real]) (2::nat))"
    by simp
  note th = evaluators_half_at_zero [where roots = "\<lambda>n. [- sqrt (1 / 3), sqrt (1 / 3)]"
      and weights = "\<lambda>n. [1, 1]" and np = 2, OF s l(1) l(2) l(2) l(3) p]
  show ?thesis
    using th s p by fastforce
qed

section \<open>Reshaping, and the shapes through the solver\<close>

lemma chunks_Nil [simp]: "chunks c [] = []"
  by simp

lemma chunks_step: "0 < c \<Longrightarrow> xs \<noteq> [] \<Longrightarrow> chunks c xs = take c xs # chunks c (drop c xs)"
  by (subst chunks.simps) simp

declare chunks.simps [simp del]

lemma chunks_append_exact:
  "0 < c \<Longrightarrow> length x = c \<Longrightarrow> chunks c (x @ ys) = x # chunks c ys"
  by (subst chunks_step) auto

lemma chunks_concat:
  "0 < c \<Longrightarrow> \<forall>x \<in> set xss. length x = c \<Longrightarrow> chunks c (concat xss) = xss"
  by (induction xss) (simp_all add: chunks_append_exact)

lemma shape2_chunks:
  "0 < c \<Longrightarrow> length xs = a * c \<Longrightarrow> shape2 (chunks c xs) a c"
proof (induction a arbitrary: xs)
  case 0
  then show ?case by (simp add: shape2_def)
next
  case (Suc a)
  have ne: "xs \<noteq> []" using Suc.prems by auto
  have "shape2 (chunks c (drop c xs)) a c"
    using Suc.prems by (intro Suc.IH) simp_all
  then show ?case
    using Suc.prems by (simp add: chunks_step [OF Suc.prems(1) ne] shape2_def)
qed

lemma chunks_append_multiple:
  "0 < c \<Longrightarrow> length xs = a * c \<Longrightarrow> chunks c (xs @ ys) = chunks c xs @ chunks c ys"
proof (induction a arbitrary: xs)
  case 0
  then show ?case by simp
next
  case (Suc a)
  have ne: "xs \<noteq> []" using Suc.prems by auto
  have l: "c \<le> length xs" using Suc.prems by simp
  have "chunks c (xs @ ys) = take c xs # chunks c (drop c xs @ ys)"
    using ne l by (subst chunks_step [OF Suc.prems(1)]) simp_all
  also have "chunks c (drop c xs @ ys) = chunks c (drop c xs) @ chunks c ys"
    using Suc.prems by (intro Suc.IH) simp_all
  finally show ?case
    by (simp add: chunks_step [OF Suc.prems(1) ne])
qed

lemma chunks_concat_rows:
  "0 < c \<Longrightarrow> \<forall>row \<in> set y. length row = a * c \<Longrightarrow>
   chunks c (concat y) = concat (map (chunks c) y)"
  by (induction y) (simp_all add: chunks_append_multiple)

lemma length_concat_shape2: "shape2 y m c \<Longrightarrow> length (concat y) = m * c"
  by (induction y arbitrary: m) (auto simp: shape2_def)

lemma shape2_map_concat: "shape3 x m n p \<Longrightarrow> shape2 (map concat x) m (n * p)"
  by (auto simp: shape3_def shape2_def length_concat_shape2 [unfolded shape2_def])

lemma dims_shape3: "shape3 x m n p \<Longrightarrow> 0 < m \<Longrightarrow> 0 < n \<Longrightarrow> dim1 x = n \<and> dim2 x = p"
  by (cases x; cases "hd x") (auto simp: shape3_def shape2_def dim1_def dim2_def)

lemma reshape2_rows:
  assumes "shape3 x m n p" and "0 < n" and "0 < p"
  shows "reshape2 (concat (map concat x)) (n * p) = Some (map concat x)"
proof -
  have s: "shape2 (map concat x) m (n * p)"
    using assms(1) by (rule shape2_map_concat)
  have l: "length (concat (map concat x)) = m * (n * p)"
    using s by (rule length_concat_shape2)
  have "chunks (n * p) (concat (map concat x)) = map concat x"
    using s assms(2,3) by (intro chunks_concat) (auto simp: shape2_def)
  then show ?thesis
    using l assms(2,3) by (simp add: reshape2_def)
qed

lemma reshape3_rows:
  assumes "shape2 y m (n * p)" and "0 < n" and "0 < p"
  shows "reshape3 (concat y) n p = Some (map (chunks p) y) \<and> shape3 (map (chunks p) y) m n p"
proof -
  have l: "length (concat y) = m * (n * p)"
    using assms(1) by (rule length_concat_shape2)
  have rows: "\<forall>row \<in> set y. shape2 (chunks p row) n p"
    using assms by (auto simp: shape2_def intro!: shape2_chunks [unfolded shape2_def])
  have "chunks p (concat y) = concat (map (chunks p) y)"
    using assms by (intro chunks_concat_rows [where a = n]) (auto simp: shape2_def)
  moreover have "chunks n (concat (map (chunks p) y)) = map (chunks p) y"
    using rows assms(2) by (intro chunks_concat) (auto simp: shape2_def)
  ultimately have "chunks n (chunks p (concat y)) = map (chunks p) y"
    by simp
  then show ?thesis
    using l rows assms by (auto simp: reshape3_def shape3_def shape2_def)
qed


lemma boundary_fn_rows:
  assumes "shape3 x m n p" and "0 < m" and "0 < n" and "0 < p"
    and "interpolate (map concat x) sp = Some vals" and "shape2 vals m (n * p)"
  shows "current_exercise_boundary_fn interpolate sp x = Some (map (chunks p) vals)"
    and "new_exercise_boundary_fn interpolate sp x = Some (map (chunks p) vals)"
    and "shape3 (map (chunks p) vals) m n p"
  using dims_shape3 [OF assms(1,2,3)] reshape2_rows [OF assms(1,3,4)]
    reshape3_rows [OF assms(6,3,4)] assms(5)
  by (simp_all add: current_exercise_boundary_fn_def new_exercise_boundary_fn_def)

lemma boundary_fn_keeps_shape:
  assumes "0 < m" and "0 < n"
    and "\<forall>pts c. shape2 pts m c \<longrightarrow> (\<exists>vals. interpolate pts sp = Some vals \<and> shape2 vals m c)"
  shows "keeps_shape (current_exercise_boundary_fn interpolate sp) m n"
    and "keeps_shape (new_exercise_boundary_fn interpolate sp) m n"
proof -
  have "\<exists>v. current_exercise_boundary_fn interpolate sp u = Some v \<and>
          new_exercise_boundary_fn interpolate sp u = Some v \<and> shape3 v m n c"
    if u: "shape3 u m n c" and c: "0 < c" for u c
  proof -
    obtain vals where v: "interpolate (map concat u) sp = Some vals" "shape2 vals m (n * c)"
      using assms(3) shape2_map_concat [OF u] by blast
    show ?thesis
      using boundary_fn_rows [where interpolate = interpolate and sp = sp, OF u assms(1,2) c v]
      by blast
  qed
  then show "keeps_shape (current_exercise_boundary_fn interpolate sp) m n"
    and "keeps_shape (new_exercise_boundary_fn interpolate sp) m n"
    unfolding keeps_shape_def by blast+
qed


lemma keeps_shapeD:
  assumes "keeps_shape f m n" and "0 < c"
  shows "\<exists>v. f (tab3 m n c u) = Some (tab3 m n c v)"
proof -
  obtain w where w: "f (tab3 m n c u) = Some w" "shape3 w m n c"
    using assms unfolding keeps_shape_def by (meson shape3_tab3)
  show ?thesis
    using w(1) shape3_tab3_nth [OF w(2)] by metis
qed

lemma integrands_keep_shape:
  assumes "keeps_shape b m n" and "par_ok m mr" and "par_ok m mq" and "par_ok m ms"
  shows "keeps_shape (numerator_func b (tab3 m n (Suc 0) tau) (tab3 mr (Suc 0) (Suc 0) r)
      (tab3 mq (Suc 0) (Suc 0) q) (tab3 ms (Suc 0) (Suc 0) sigma)) m n"
    and "keeps_shape (denominator_func b (tab3 m n (Suc 0) tau) (tab3 mr (Suc 0) (Suc 0) r)
      (tab3 mq (Suc 0) (Suc 0) q) (tab3 ms (Suc 0) (Suc 0) sigma)) m n"
proof -
  obtain bt where bt: "b (tab3 m n (Suc 0) tau) = Some (tab3 m n (Suc 0) bt)"
    using keeps_shapeD [OF assms(1), of "Suc 0" tau] by auto
  have "\<exists>v w. numerator_func b (tab3 m n (Suc 0) tau) (tab3 mr (Suc 0) (Suc 0) r)
      (tab3 mq (Suc 0) (Suc 0) q) (tab3 ms (Suc 0) (Suc 0) sigma) u = Some v \<and> shape3 v m n c \<and>
     denominator_func b (tab3 m n (Suc 0) tau) (tab3 mr (Suc 0) (Suc 0) r)
      (tab3 mq (Suc 0) (Suc 0) q) (tab3 ms (Suc 0) (Suc 0) sigma) u = Some w \<and> shape3 w m n c"
    if u: "shape3 u m n c" and c: "0 < c" for u c
  proof -
    define u' where "u' = (\<lambda>i j l. u ! i ! j ! l)"
    have ue: "u = tab3 m n c u'"
      unfolding u'_def using u by (rule shape3_tab3_nth)
    obtain bu where bu: "b (tab3 m n c u') = Some (tab3 m n c bu)"
      using keeps_shapeD [OF assms(1) c, of u'] by auto
    show ?thesis
      unfolding ue
      using numerator_func_tab3 [where b = b and tau = tau and u = u' and bt = bt and bu = bu,
          OF bt bu assms(2,3,4)]
        denominator_func_tab3 [where b = b and tau = tau and u = u' and bt = bt and bu = bu,
          OF bt bu assms(2,3,4)]
      by simp
  qed
  then show "keeps_shape (numerator_func b (tab3 m n (Suc 0) tau) (tab3 mr (Suc 0) (Suc 0) r)
      (tab3 mq (Suc 0) (Suc 0) q) (tab3 ms (Suc 0) (Suc 0) sigma)) m n"
    and "keeps_shape (denominator_func b (tab3 m n (Suc 0) tau) (tab3 mr (Suc 0) (Suc 0) r)
      (tab3 mq (Suc 0) (Suc 0) q) (tab3 ms (Suc 0) (Suc 0) sigma)) m n"
    unfolding keeps_shape_def by blast+
qed

lemma quadrature_okD:
  assumes "quadrature_ok integrate np m n" and "keeps_shape func m n"
  shows "\<exists>G. integrate func (tab2 m n lo) (tab2 m n up) np = Some (tab2 m n G)"
proof -
  obtain g where g: "integrate func (tab2 m n lo) (tab2 m n up) np = Some g" "shape2 g m n"
    using assms unfolding quadrature_ok_def by (meson shape2_tab2)
  show ?thesis
    using g(1) shape2_tab2_nth [OF g(2)] by metis
qed

lemma evaluators_ok:
  assumes "keeps_shape b m n" and "quadrature_ok integrate np m n"
    and "par_ok m mk" and "par_ok m mr" and "par_ok m mq" and "par_ok m ms"
  shows "\<exists>N D.
     boundary_numerator integrate (tab2 m n tau) b (tab1 mk k) (tab1 mr r) (tab1 mq q)
       (tab1 ms sigma) np = Some (tab2 m n N) \<and>
     boundary_denominator integrate (tab2 m n tau) b (tab1 mk k) (tab1 mr r) (tab1 mq q)
       (tab1 ms sigma) np = Some (tab2 m n D)"
proof -
  let ?tau = "\<lambda>i j l::nat. tau i j" and ?r = "\<lambda>i (j::nat) l::nat. r i"
    and ?q = "\<lambda>i (j::nat) l::nat. q i" and ?s = "\<lambda>i (j::nat) l::nat. sigma i"
  obtain bt where bt: "b (tab3 m n (Suc 0) ?tau) = Some (tab3 m n (Suc 0) bt)"
    using keeps_shapeD [OF assms(1), of "Suc 0" ?tau] by auto
  note ks = integrands_keep_shape [OF assms(1,4,5,6), of ?tau ?r ?q ?s]
  obtain GN where GN: "integrate (numerator_func b (tab3 m n (Suc 0) ?tau)
      (tab3 mr (Suc 0) (Suc 0) ?r) (tab3 mq (Suc 0) (Suc 0) ?q) (tab3 ms (Suc 0) (Suc 0) ?s))
      (tab2 m n (\<lambda>i j. Fin 0)) (tab2 m n tau) np = Some (tab2 m n GN)"
    using quadrature_okD [OF assms(2) ks(1)] by blast
  obtain GD where GD: "integrate (denominator_func b (tab3 m n (Suc 0) ?tau)
      (tab3 mr (Suc 0) (Suc 0) ?r) (tab3 mq (Suc 0) (Suc 0) ?q) (tab3 ms (Suc 0) (Suc 0) ?s))
      (tab2 m n (\<lambda>i j. Fin 0)) (tab2 m n tau) np = Some (tab2 m n GD)"
    using quadrature_okD [OF assms(2) ks(2)] by blast
  show ?thesis
    using boundary_numerator_tab [where b = b and tau = tau and bt = bt and G = GN
        and integrate = integrate and k = k, OF bt GN assms(3,4,5,6)]
      boundary_denominator_tab [where b = b and tau = tau and bt = bt and G = GD
        and integrate = integrate and k = k, OF bt GD assms(3,4,5,6)]
    by blast
qed

lemma body_ok:
  assumes "0 < m" and "0 < n" and "shape2 tau_grid m n" and "shape2 current m n"
    and "par_ok m (length k)" and "par_ok m (length r)" and "par_ok m (length q)"
    and "par_ok m (length sigma)"
    and "spline_ok build_spline interpolate m n" and "quadrature_ok integrate np m n"
  shows "\<exists>converged new.
     body build_spline interpolate integrate eps tol np tau_grid k r q sigma
       (expand_dims1 k) (expand_dims1 r) (expand_dims1 q) (c, current) = Some (converged, new) \<and>
     shape2 new m n"
proof -
  define tau' where "tau' = (\<lambda>i j. tau_grid ! i ! j)"
  define cur' where "cur' = (\<lambda>i j. current ! i ! j)"
  have tau: "tau_grid = tab2 m n tau'" and cur: "current = tab2 m n cur'"
    unfolding tau'_def cur'_def using assms(3,4) by (simp_all add: shape2_tab2_nth [symmetric])
  have k: "k = tab1 (length k) (\<lambda>i. k ! i)" and r: "r = tab1 (length r) (\<lambda>i. r ! i)"
    and q: "q = tab1 (length q) (\<lambda>i. q ! i)"
    and s: "sigma = tab1 (length sigma) (\<lambda>i. sigma ! i)"
    by (simp_all add: tab1_nth)
  obtain sp where sp: "build_spline tau_grid current = Some sp"
    and ip: "\<forall>pts c. shape2 pts m c \<longrightarrow>
        (\<exists>vals. interpolate pts sp = Some vals \<and> shape2 vals m c)"
    using assms(9,3,4) unfolding spline_ok_def by blast
  have ks: "keeps_shape (current_exercise_boundary_fn interpolate sp) m n"
    using assms(1,2) ip by (rule boundary_fn_keeps_shape)
  obtain N D where
    N: "boundary_numerator integrate (tab2 m n tau') (current_exercise_boundary_fn interpolate sp)
       (tab1 (length k) (\<lambda>i. k ! i)) (tab1 (length r) (\<lambda>i. r ! i)) (tab1 (length q) (\<lambda>i. q ! i))
       (tab1 (length sigma) (\<lambda>i. sigma ! i)) np = Some (tab2 m n N)" and
    D: "boundary_denominator integrate (tab2 m n tau') (current_exercise_boundary_fn interpolate sp)
       (tab1 (length k) (\<lambda>i. k ! i)) (tab1 (length r) (\<lambda>i. r ! i)) (tab1 (length q) (\<lambda>i. q ! i))
       (tab1 (length sigma) (\<lambda>i. sigma ! i)) np = Some (tab2 m n D)"
    using evaluators_ok [OF ks assms(10,5,6,7,8)] by blast
  have "\<exists>converged new'.
     body build_spline interpolate integrate eps tol np (tab2 m n tau') k r q sigma
       (tab2 (length k) (Suc 0) (\<lambda>i j. k ! i)) (tab2 (length r) (Suc 0) (\<lambda>i j. r ! i))
       (tab2 (length q) (Suc 0) (\<lambda>i j. q ! i)) (c, tab2 m n cur') =
     Some (converged, tab2 m n new')"
    using body_tab [where build_spline = build_spline and interpolate = interpolate
        and integrate = integrate and tau = tau' and cur = cur' and sp = sp and N = N and D = D
        and k = k and r = r and q = q and sigma = sigma and npts = np,
        OF _ _ _ assms(5,6,7)]
      sp N D unfolding tau cur k [symmetric] r [symmetric] q [symmetric] s [symmetric]
    by blast
  moreover have "expand_dims1 k = tab2 (length k) (Suc 0) (\<lambda>i j. k ! i)"
    "expand_dims1 r = tab2 (length r) (Suc 0) (\<lambda>i j. r ! i)"
    "expand_dims1 q = tab2 (length q) (Suc 0) (\<lambda>i j. q ! i)"
    by (subst k r q, simp)+
  ultimately show ?thesis
    unfolding tau cur by (metis shape2_tab2)
qed


lemma while_loop_iterate:
  "while_loop c f s d = Some s' \<Longrightarrow> \<exists>j\<le>d. iterate f j s = Some s' \<and> (j < d \<longrightarrow> \<not> c s')"
proof (induction d arbitrary: s)
  case 0
  then show ?case by simp
next
  case (Suc d)
  show ?case
  proof (cases "c s")
    case False
    then have "s' = s" using Suc.prems by simp
    then show ?thesis using False by (intro exI [of _ 0]) simp
  next
    case True
    then obtain t where t: "f s = Some t" "while_loop c f t d = Some s'"
      using Suc.prems by (auto split: option.splits)
    obtain j where j: "j \<le> d" "iterate f j t = Some s'" "j < d \<longrightarrow> \<not> c s'"
      using Suc.IH [OF t(2)] by blast
    show ?thesis
      using t(1) j by (intro exI [of _ "Suc j"]) simp
  qed
qed

lemma while_loop_ok:
  assumes "\<And>s. P s \<Longrightarrow> \<exists>s'. f s = Some s' \<and> P s'" and "P s"
  shows "\<exists>s'. while_loop c f s d = Some s' \<and> P s'"
  using assms(2)
proof (induction d arbitrary: s)
  case 0
  then show ?case by simp
next
  case (Suc d)
  obtain t where t: "f s = Some t" "P t"
    using assms(1) [OF Suc.prems] by blast
  show ?case
    using Suc.IH [OF t(2)] t(1) Suc.prems by auto
qed

lemma initial_points_ok:
  assumes "par_ok m (length k)" and "par_ok m (length r)" and "par_ok m (length q)"
    and "shape2 tau_grid m n"
  shows "\<exists>initial. b_0 (expand_dims1 k) (expand_dims1 r) (expand_dims1 q) (expand_dims2 tau_grid)
      = Some (expand_dims2 initial) \<and> squeeze_last (expand_dims2 initial) = Some initial \<and>
      shape2 initial m n"
proof -
  define tau' where "tau' = (\<lambda>i j. tau_grid ! i ! j)"
  have tau: "tau_grid = tab2 m n tau'"
    unfolding tau'_def using assms(4) by (simp add: shape2_tab2_nth [symmetric])
  have k: "k = tab1 (length k) (\<lambda>i. k ! i)" and r: "r = tab1 (length r) (\<lambda>i. r ! i)"
    and q: "q = tab1 (length q) (\<lambda>i. q ! i)"
    by (simp_all add: tab1_nth)
  define B where "B = (\<lambda>i (j::nat). fmul (fmul (Fin 1) (k ! bidx (length k) i))
       (fminimum (Fin 1) (fdiv (r ! bidx (length r) i) (q ! bidx (length q) i))))"
  have "b_0 (expand_dims1 k) (expand_dims1 r) (expand_dims1 q) (expand_dims2 tau_grid) =
      Some (expand_dims2 (tab2 m n B))"
    unfolding tau B_def
    by (subst k, subst r, subst q) (simp add: b_0_tab [OF assms(1,2,3)])
  then show ?thesis
    by (intro exI [of _ "tab2 m n B"]) simp
qed

lemma exercise_boundary_run:
  assumes "0 < m" and "0 < n" and "shape2 tau_grid m n"
    and "par_ok m (length k)" and "par_ok m (length r)" and "par_ok m (length q)"
    and "par_ok m (length sigma)"
    and "spline_ok build_spline interpolate m n" and "quadrature_ok integrate np m n"
  shows "\<exists>initial d converged result sp.
     b_0 (expand_dims1 k) (expand_dims1 r) (expand_dims1 q) (expand_dims2 tau_grid) =
       Some (expand_dims2 initial) \<and>
     shape2 initial m n \<and> d \<le> max_depth \<and>
     iterate (body build_spline interpolate integrate (epsilon_for dtype) tolerance np
        tau_grid k r q sigma (expand_dims1 k) (expand_dims1 r) (expand_dims1 q)) d
        (False, initial) = Some (converged, result) \<and>
     (d < max_depth \<longrightarrow> converged) \<and> shape2 result m n \<and>
     build_spline tau_grid result = Some sp \<and>
     (\<forall>pts c. shape2 pts m c \<longrightarrow> (\<exists>vals. interpolate pts sp = Some vals \<and> shape2 vals m c)) \<and>
     exercise_boundary build_spline interpolate integrate dtype tau_grid k r q sigma
       max_depth tolerance np = Some (new_exercise_boundary_fn interpolate sp)"
proof -
  let ?f = "body build_spline interpolate integrate (epsilon_for dtype) tolerance np
        tau_grid k r q sigma (expand_dims1 k) (expand_dims1 r) (expand_dims1 q)"
  obtain initial where i: "b_0 (expand_dims1 k) (expand_dims1 r) (expand_dims1 q)
      (expand_dims2 tau_grid) = Some (expand_dims2 initial)"
      "squeeze_last (expand_dims2 initial) = Some initial" "shape2 initial m n"
    using initial_points_ok [OF assms(4,5,6,3)] by blast
  have step: "\<exists>s'. ?f s = Some s' \<and> shape2 (snd s') m n" if "shape2 (snd s) m n" for s
    using body_ok [OF assms(1,2,3) that assms(4,5,6,7,8,9), of _ _ "fst s"] by auto
  obtain vars where v: "while_loop cond ?f (False, initial) max_depth = Some vars"
      "shape2 (snd vars) m n"
    using while_loop_ok [of "\<lambda>s. shape2 (snd s) m n" ?f "(False, initial)" cond max_depth]
      step i(3) by auto
  obtain d where d: "d \<le> max_depth" "iterate ?f d (False, initial) = Some vars"
      "d < max_depth \<longrightarrow> \<not> cond vars"
    using while_loop_iterate [OF v(1)] by blast
  obtain sp where sp: "build_spline tau_grid (snd vars) = Some sp"
    "\<forall>pts c. shape2 pts m c \<longrightarrow> (\<exists>vals. interpolate pts sp = Some vals \<and> shape2 vals m c)"
    using assms(8,3) v(2) unfolding spline_ok_def by blast
  have "exercise_boundary build_spline interpolate integrate dtype tau_grid k r q sigma
       max_depth tolerance np = Some (new_exercise_boundary_fn interpolate sp)"
    using i(1,2) v(1) sp(1) by (simp add: exercise_boundary_def)
  then show ?thesis
    using i(1,3) d v(2) sp
    by (intro exI [of _ initial] exI [of _ d] exI [of _ "fst vars"] exI [of _ "snd vars"]
        exI [of _ sp]) (simp add: cond_def)
qed

lemma gauss_legendre_ok:
  assumes "length (roots np) = length (weights np)" and "0 < length (roots np)"
  shows "quadrature_ok (gauss_legendre roots weights) np m n"
  unfolding quadrature_ok_def
proof (intro allI impI)
  fix func :: boundary_fn and lower upper :: tensor2
  assume lo: "shape2 lower m n" and up: "shape2 upper m n" and ks: "keeps_shape func m n"
  define p where "p = length (roots np)"
  define lo' where "lo' = (\<lambda>i j. lower ! i ! j)"
  define up' where "up' = (\<lambda>i j. upper ! i ! j)"
  have l: "lower = tab2 m n lo'" and u: "upper = tab2 m n up'"
    unfolding lo'_def up'_def using lo up by (simp_all add: shape2_tab2_nth [symmetric])
  show "\<exists>g. gauss_legendre roots weights func lower upper np = Some g \<and> shape2 g m n"
  proof -
    have p: "0 < p"
      using assms(2) by (simp add: p_def)
    obtain fv where fv: "func (tab3 m n p (\<lambda>i j l.
           fdiv (fadd (fadd (fmul (fsub (up' i j) (lo' i j)) (Fin (roots np ! l))) (up' i j))
             (lo' i j)) (Fin 2))) = Some (tab3 m n p fv)"
      using keeps_shapeD [OF ks p] by blast
    have lr: "length (roots np) = p" and lw: "length (weights np) = p"
      using assms(1) by (simp_all add: p_def)
    have "gauss_legendre roots weights func (tab2 m n lo') (tab2 m n up') np =
      Some (tab2 m n (\<lambda>i j. foldl fadd (Fin 0) (tab1 p (\<lambda>l.
        fdiv (fmul (fmul (fv i j l) (fsub (up' i j) (lo' i j))) (Fin (weights np ! l)))
          (Fin 2)))))"
      using gauss_legendre_tab [where roots = roots and weights = weights and np = np and p = p
          and lo = lo' and up = up' and fv = fv and func = func and m = m and n = n, OF lr lw fv] .
    then show ?thesis
      unfolding l u by (intro exI conjI, assumption) (rule shape2_tab2)
  qed
qed

section \<open>The whole solver\<close>

lemma par_ok_length: "length k = m \<Longrightarrow> par_ok m (length k)"
  by (simp add: par_ok_def)

lemma first_sample_spline_ok:
  "0 < n \<Longrightarrow> spline_ok (\<lambda>knots values. Some values)
     (\<lambda>x sp. Some (map2 (\<lambda>row vals. map (\<lambda>t. hd vals) row) x sp)) m n"
  unfolding spline_ok_def
  by (auto simp: shape2_def in_set_zip)

text \<open>
  C6. For a valid input, and collaborators that accept it, \<open>exercise_boundary\<close> returns:
  the loop makes \<open>d \<le> max_depth\<close> runs of \<open>body\<close> from the initial guess, it stops
  before \<open>max_depth\<close> only when converged, and whether converged or not the result is the
  callable of the spline built on the last sample vector.
\<close>

theorem exercise_boundary_bounded_loop:
  assumes "0 < m" and "0 < n" and "shape2 tau_grid m n"
    and "length k = m" and "length r = m" and "length q = m" and "length sigma = m"
    and "spline_ok build_spline interpolate m n" and "quadrature_ok integrate np m n"
  shows "\<exists>initial d converged result sp.
     b_0 (expand_dims1 k) (expand_dims1 r) (expand_dims1 q) (expand_dims2 tau_grid) =
       Some (expand_dims2 initial) \<and>
     d \<le> max_depth \<and>
     iterate (body build_spline interpolate integrate (epsilon_for dtype) tolerance np
        tau_grid k r q sigma (expand_dims1 k) (expand_dims1 r) (expand_dims1 q)) d
        (False, initial) = Some (converged, result) \<and>
     (d < max_depth \<longrightarrow> converged) \<and>
     build_spline tau_grid result = Some sp \<and>
     exercise_boundary build_spline interpolate integrate dtype tau_grid k r q sigma
       max_depth tolerance np = Some (new_exercise_boundary_fn interpolate sp)"
  using exercise_boundary_run [OF assms(1,2,3) par_ok_length [OF assms(4)]
      par_ok_length [OF assms(5)] par_ok_length [OF assms(6)] par_ok_length [OF assms(7)]
      assms(8,9), of max_depth dtype tolerance]
  by blast

theorem exercise_boundary_bounded_loop_witness:
  "(0::nat) < 1 \<and> (0::nat) < 3 \<and> shape2 [[Fin 0, Fin (1 / 2), Fin 1]] 1 3 \<and>
   length [Fin 100] = 1 \<and> length [Fin (1 / 100)] = 1 \<and> length [Fin (1 / 10)] = 1 \<and>
   spline_ok (\<lambda>knots values. Some values)
     (\<lambda>x sp. Some (map2 (\<lambda>row vals. map (\<lambda>t. hd vals) row) x sp)) 1 3 \<and>
   quadrature_ok (gauss_legendre (\<lambda>n. [- sqrt (1 / 3), sqrt (1 / 3)]) (\<lambda>n. [1, 1])) 2 1 3 \<and>
   (\<exists>initial d converged result sp.
     b_0 (expand_dims1 [Fin 100]) (expand_dims1 [Fin (1 / 100)]) (expand_dims1 [Fin (1 / 100)])
       (expand_dims2 [[Fin 0, Fin (1 / 2), Fin 1]]) = Some (expand_dims2 initial) \<and>
     d \<le> 20 \<and>
     iterate (body (\<lambda>knots values. Some values)
        (\<lambda>x sp. Some (map2 (\<lambda>row vals. map (\<lambda>t. hd vals) row) x sp))
        (gauss_legendre (\<lambda>n. [- sqrt (1 / 3), sqrt (1 / 3)]) (\<lambda>n. [1, 1]))
        (epsilon_for Float64) (Fin (1 / 10 ^ 8)) 2
        [[Fin 0, Fin (1 / 2), Fin 1]] [Fin 100] [Fin (1 / 100)] [Fin (1 / 100)] [Fin (1 / 10)]
        (expand_dims1 [Fin 100]) (expand_dims1 [Fin (1 / 100)]) (expand_dims1 [Fin (1 / 100)])) d
        (False, initial) = Some (converged, result) \<and>
     (d < 20 \<longrightarrow> converged) \<and>
     (\<lambda>knots values. Some values) [[Fin 0, Fin (1 / 2), Fin 1]] result = Some sp \<and>
     exercise_boundary (\<lambda>knots values. Some values)
        (\<lambda>x sp. Some (map2 (\<lambda>row vals. map (\<lambda>t. hd vals) row) x sp))
        (gauss_legendre (\<lambda>n. [- sqrt (1 / 3), sqrt (1 / 3)]) (\<lambda>n. [1, 1])) Float64
        [[Fin 0, Fin (1 / 2), Fin 1]] [Fin 100] [Fin (1 / 100)] [Fin (1 / 100)] [Fin (1 / 10)]
        20 (Fin (1 / 10 ^ 8)) 2 =
      Some (new_exercise_boundary_fn
        (\<lambda>x sp. Some (map2 (\<lambda>row vals. map (\<lambda>t. hd vals) row) x sp)) sp))"
proof -
  have p: "(0::nat) < 1" "(0::nat) < 3"
    by simp_all
  have s: "shape2 [[Fin 0, Fin (1 / 2), Fin 1]] 1 3"
    by (simp add: shape2_def)
  have l: "length [Fin 100] = 1" "length [Fin (1 / 100)] = 1" "length [Fin (1 / 10)] = 1"
    by simp_all
  have sp: "spline_ok (\<lambda>knots values. Some values)
     (\<lambda>x sp. Some (map2 (\<lambda>row vals. map (\<lambda>t. hd vals) row) x sp)) 1 3"
    by (rule first_sample_spline_ok) simp
  have g: "quadrature_ok (gauss_legendre (\<lambda>n. [- sqrt (1 / 3), sqrt (1 / 3)]) (\<lambda>n. [1, 1])) 2 1 3"
    by (rule gauss_legendre_ok) simp_all
  note th = exercise_boundary_bounded_loop [where max_depth = 20 and dtype = Float64
      and tolerance = "Fin (1 / 10 ^ 8)", OF p s l(1) l(2) l(2) l(3) sp g]
  show ?thesis
    by (intro conjI) (rule p s l sp g th)+
qed

text \<open>
  C8. The callable returned by \<open>exercise_boundary\<close> maps a tensor of shape
  \<open>[m, n', p]\<close> to a tensor of the same shape: the rows of the argument are flattened,
  the final spline is evaluated on them, and each row of values is cut again into
  pieces of length \<open>p\<close>.
\<close>

theorem returned_callable_keeps_shape:
  assumes "0 < m" and "0 < n" and "shape2 tau_grid m n"
    and "length k = m" and "length r = m" and "length q = m" and "length sigma = m"
    and "spline_ok build_spline interpolate m n" and "quadrature_ok integrate np m n"
    and "shape3 x m n' p" and "0 < n'" and "0 < p"
  shows "\<exists>sp vals y.
     exercise_boundary build_spline interpolate integrate dtype tau_grid k r q sigma
       max_depth tolerance np = Some (new_exercise_boundary_fn interpolate sp) \<and>
     interpolate (map concat x) sp = Some vals \<and>
     new_exercise_boundary_fn interpolate sp x = Some y \<and>
     y = map (chunks p) vals \<and> shape3 y m n' p"
proof -
  obtain sp where e: "exercise_boundary build_spline interpolate integrate dtype tau_grid
       k r q sigma max_depth tolerance np = Some (new_exercise_boundary_fn interpolate sp)"
    and ip: "\<forall>pts c. shape2 pts m c \<longrightarrow>
       (\<exists>vals. interpolate pts sp = Some vals \<and> shape2 vals m c)"
    using exercise_boundary_run [OF assms(1,2,3) par_ok_length [OF assms(4)]
      par_ok_length [OF assms(5)] par_ok_length [OF assms(6)] par_ok_length [OF assms(7)]
      assms(8,9), of max_depth dtype tolerance]
    by blast
  obtain vals where v: "interpolate (map concat x) sp = Some vals" "shape2 vals m (n' * p)"
    using ip shape2_map_concat [OF assms(10)] by blast
  note rows = boundary_fn_rows [where interpolate = interpolate and sp = sp,
      OF assms(10,1,11,12) v]
  show ?thesis
    using e v(1) rows(2,3) by blast
qed

theorem returned_callable_keeps_shape_witness:
  "(0::nat) < 1 \<and> (0::nat) < 3 \<and> (0::nat) < 2 \<and>
   shape2 [[Fin 0, Fin (1 / 2), Fin 1]] 1 3 \<and>
   length [Fin 100] = 1 \<and> length [Fin (1 / 100)] = 1 \<and> length [Fin (1 / 10)] = 1 \<and>
   spline_ok (\<lambda>knots values. Some values)
     (\<lambda>x sp. Some (map2 (\<lambda>row vals. map (\<lambda>t. hd vals) row) x sp)) 1 3 \<and>
   quadrature_ok (gauss_legendre (\<lambda>n. [- sqrt (1 / 3), sqrt (1 / 3)]) (\<lambda>n. [1, 1])) 2 1 3 \<and>
   shape3 [[[Fin 0, Fin (1 / 4)], [Fin (1 / 2), Fin (3 / 4)], [Fin 1, Fin 1]]] 1 3 2 \<and>
   (\<exists>sp vals y.
     exercise_boundary (\<lambda>knots values. Some values)
       (\<lambda>x sp. Some (map2 (\<lambda>row vals. map (\<lambda>t. hd vals) row) x sp))
       (gauss_legendre (\<lambda>n. [- sqrt (1 / 3), sqrt (1 / 3)]) (\<lambda>n. [1, 1])) Float64
       [[Fin 0, Fin (1 / 2), Fin 1]] [Fin 100] [Fin (1 / 100)] [Fin (1 / 100)] [Fin (1 / 10)]
       20 (Fin (1 / 10 ^ 8)) 2 =
     Some (new_exercise_boundary_fn
       (\<lambda>x sp. Some (map2 (\<lambda>row vals. map (\<lambda>t. hd vals) row) x sp)) sp) \<and>
     (\<lambda>x sp. Some (map2 (\<lambda>row vals. map (\<lambda>t. hd vals) row) x sp))
       (map concat [[[Fin 0, Fin (1 / 4)], [Fin (1 / 2), Fin (3 / 4)], [Fin 1, Fin 1]]]) sp =
       Some vals \<and>
     new_exercise_boundary_fn
       (\<lambda>x sp. Some (map2 (\<lambda>row vals. map (\<lambda>t. hd vals) row) x sp)) sp
       [[[Fin 0, Fin (1 / 4)], [Fin (1 / 2), Fin (3 / 4)], [Fin 1, Fin 1]]] = Some y \<and>
     y = map (chunks 2) vals \<and> shape3 y 1 3 2)"
proof -
  have p: "(0::nat) < 1" "(0::nat) < 3" "(0::nat) < 2"
    by simp_all
  have s: "shape2 [[Fin 0, Fin (1 / 2), Fin 1]] 1 3"
    by (simp add: shape2_def)
  have l: "length [Fin 100] = 1" "length [Fin (1 / 100)] = 1" "length [Fin (1 / 10)] = 1"
    by simp_all
  have sp: "spline_ok (\<lambda>knots values. Some values)
     (\<lambda>x sp. Some (map2 (\<lambda>row vals. map (\<lambda>t. hd vals) row) x sp)) 1 3"
    by (rule first_sample_spline_ok) simp
  have g: "quadrature_ok (gauss_legendre (\<lambda>n. [- sqrt (1 / 3), sqrt (1 / 3)]) (\<lambda>n. [1, 1])) 2 1 3"
    by (rule gauss_legendre_ok) simp_all
  have x: "shape3 [[[Fin 0, Fin (1 / 4)], [Fin (1 / 2), Fin (3 / 4)], [Fin 1, Fin 1]]] 1 3 2"
    by (simp add: shape3_def shape2_def)
  note th = returned_callable_keeps_shape [where max_depth = 20 and dtype = Float64
      and tolerance = "Fin (1 / 10 ^ 8)", OF p(1,2) s l(1) l(2) l(2) l(3) sp g x p(2,3)]
  show ?thesis
    by (intro conjI) (rule p s l sp g x th)+
qed

section \<open>Input validation\<close>

lemma b_0_incompatible:
  assumes "shape2 tau_grid m n" and "\<not> bc_ok m (length k)"
  shows "b_0 (expand_dims1 k) r_exp q_exp (expand_dims2 tau_grid) = None"
proof -
  have "bc3 fmul (ones_like (expand_dims2 tau_grid)) (expand_dims2 (expand_dims1 k)) = None"
    unfolding bc3_def using assms
    by (intro lift_bc_None)
      (simp add: ones_like_def map3d_def expand_dims2_def expand_dims1_def shape2_def)
  then show ?thesis
    by (simp add: b_0_def)
qed

text \<open>
  C3, as stated, fails: a strike vector of length 1 for a batch of two options, and a
  grid that is neither ascending nor non-negative, are both accepted and a callable is
  returned.
\<close>

theorem exercise_boundary_validation_counterexample:
  "exercise_boundary (\<lambda>knots values. Some values)
     (\<lambda>x sp. Some (map2 (\<lambda>row vals. map (\<lambda>t. hd vals) row) x sp))
     (gauss_legendre (\<lambda>n. [- sqrt (1 / 3), sqrt (1 / 3)]) (\<lambda>n. [1, 1])) Float64
     [[Fin 0, Fin (1 / 2), Fin 1], [Fin 0, Fin 1, Fin 2]] [Fin 100]
     [Fin (1 / 100), Fin (2 / 100)] [Fin (1 / 100), Fin (2 / 100)] [Fin (1 / 10), Fin (15 / 100)]
     20 (Fin (1 / 10 ^ 8)) 2 \<noteq> None \<and>
   exercise_boundary (\<lambda>knots values. Some values)
     (\<lambda>x sp. Some (map2 (\<lambda>row vals. map (\<lambda>t. hd vals) row) x sp))
     (gauss_legendre (\<lambda>n. [- sqrt (1 / 3), sqrt (1 / 3)]) (\<lambda>n. [1, 1])) Float64
     [[Fin 1, Fin (- 1), Fin 0]] [Fin 100] [Fin (1 / 100)] [Fin (1 / 100)] [Fin (1 / 10)]
     20 (Fin (1 / 10 ^ 8)) 2 \<noteq> None"
proof -
  let ?bs = "\<lambda>knots values :: tensor2. Some values"
  let ?ip = "\<lambda>x sp. Some (map2 (\<lambda>row vals :: fl list. map (\<lambda>t :: fl. hd vals) row) x sp)"
  let ?gl = "gauss_legendre (\<lambda>n. [- sqrt (1 / 3), sqrt (1 / 3)]) (\<lambda>n. [1, 1])"
  have g: "quadrature_ok ?gl 2 m 3" for m
    by (rule gauss_legendre_ok) simp_all
  have sp: "spline_ok ?bs ?ip m 3" for m
    by (rule first_sample_spline_ok) simp
  have s2: "shape2 [[Fin 0, Fin (1 / 2), Fin 1], [Fin 0, Fin 1, Fin 2]] 2 3"
    and s1: "shape2 [[Fin 1, Fin (- 1), Fin 0]] 1 3"
    by (simp_all add: shape2_def)
  have a: "exercise_boundary ?bs ?ip ?gl Float64
     [[Fin 0, Fin (1 / 2), Fin 1], [Fin 0, Fin 1, Fin 2]] [Fin 100]
     [Fin (1 / 100), Fin (2 / 100)] [Fin (1 / 100), Fin (2 / 100)] [Fin (1 / 10), Fin (15 / 100)]
     20 (Fin (1 / 10 ^ 8)) 2 \<noteq> None"
    using exercise_boundary_run [where build_spline = ?bs and interpolate = ?ip
        and integrate = ?gl and np = 2 and m = 2 and n = 3 and k = "[Fin 100]"
        and r = "[Fin (1 / 100), Fin (2 / 100)]" and q = "[Fin (1 / 100), Fin (2 / 100)]"
        and sigma = "[Fin (1 / 10), Fin (15 / 100)]" and max_depth = 20 and dtype = Float64
        and tolerance = "Fin (1 / 10 ^ 8)", OF _ _ s2 _ _ _ _ sp g]
    by (auto simp: par_ok_def)
  have b: "exercise_boundary ?bs ?ip ?gl Float64
     [[Fin 1, Fin (- 1), Fin 0]] [Fin 100] [Fin (1 / 100)] [Fin (1 / 100)] [Fin (1 / 10)]
     20 (Fin (1 / 10 ^ 8)) 2 \<noteq> None"
    using exercise_boundary_run [where build_spline = ?bs and interpolate = ?ip
        and integrate = ?gl and np = 2 and m = 1 and n = 3 and k = "[Fin 100]"
        and r = "[Fin (1 / 100)]" and q = "[Fin (1 / 100)]"
        and sigma = "[Fin (1 / 10)]" and max_depth = 20 and dtype = Float64
        and tolerance = "Fin (1 / 10 ^ 8)", OF _ _ s1 _ _ _ _ sp g]
    by (auto simp: par_ok_def)
  show ?thesis
    using a b by (rule conjI)
qed

text \<open>
  C3, amended. \<open>exercise_boundary\<close> checks nothing itself. For every \<open>tau_grid\<close> of
  shape \<open>[m, n]\<close>, whatever its entries, and parameters of length \<open>m\<close> or 1, it returns
  a callable when the collaborators accept their input; when the length of \<open>K\<close> is
  neither \<open>m\<close> nor 1 (and \<open>m\<close> is not 1) the initial guess cannot be broadcast and
  \<open>exercise_boundary\<close> fails before the loop.
\<close>

theorem exercise_boundary_unvalidated:
  assumes "0 < m" and "0 < n" and "shape2 tau_grid m n"
    and "spline_ok build_spline interpolate m n" and "quadrature_ok integrate np m n"
  shows "((length k = m \<or> length k = 1) \<and> (length r = m \<or> length r = 1) \<and>
      (length q = m \<or> length q = 1) \<and> (length sigma = m \<or> length sigma = 1) \<longrightarrow>
      (\<exists>fn. exercise_boundary build_spline interpolate integrate dtype tau_grid k r q sigma
         max_depth tolerance np = Some fn)) \<and>
     (length k \<noteq> m \<and> length k \<noteq> 1 \<and> m \<noteq> 1 \<longrightarrow>
      b_0 (expand_dims1 k) (expand_dims1 r) (expand_dims1 q) (expand_dims2 tau_grid) = None \<and>
      exercise_boundary build_spline interpolate integrate dtype tau_grid k r q sigma
         max_depth tolerance np = None)"
proof (intro conjI impI)
  assume "(length k = m \<or> length k = 1) \<and> (length r = m \<or> length r = 1) \<and>
      (length q = m \<or> length q = 1) \<and> (length sigma = m \<or> length sigma = 1)"
  then have "par_ok m (length k)" "par_ok m (length r)" "par_ok m (length q)"
    "par_ok m (length sigma)"
    by (simp_all add: par_ok_def)
  from exercise_boundary_run [OF assms(1,2,3) this assms(4,5), of max_depth dtype tolerance]
  show "\<exists>fn. exercise_boundary build_spline interpolate integrate dtype tau_grid k r q sigma
         max_depth tolerance np = Some fn"
    by blast
next
  assume "length k \<noteq> m \<and> length k \<noteq> 1 \<and> m \<noteq> 1"
  then have "\<not> bc_ok m (length k)"
    by (auto simp: bc_ok_def)
  then show b: "b_0 (expand_dims1 k) (expand_dims1 r) (expand_dims1 q) (expand_dims2 tau_grid)
      = None"
    by (rule b_0_incompatible [OF assms(3)])
  show "exercise_boundary build_spline interpolate integrate dtype tau_grid k r q sigma
         max_depth tolerance np = None"
    by (simp add: exercise_boundary_def b)
qed

theorem exercise_boundary_unvalidated_witness:
  "(0::nat) < 2 \<and> (0::nat) < 3 \<and>
   shape2 [[Fin 1, Fin (- 1), Fin 0], [Fin 0, Fin 1, Fin 2]] 2 3 \<and>
   spline_ok (\<lambda>knots values. Some values)
     (\<lambda>x sp. Some (map2 (\<lambda>row vals. map (\<lambda>t. hd vals) row) x sp)) 2 3 \<and>
   quadrature_ok (gauss_legendre (\<lambda>n. [- sqrt (1 / 3), sqrt (1 / 3)]) (\<lambda>n. [1, 1])) 2 2 3 \<and>
   length [Fin 100] = 1 \<and> length [Fin (1 / 100), Fin (2 / 100)] = 2 \<and>
   (\<exists>fn. exercise_boundary (\<lambda>knots values. Some values)
      (\<lambda>x sp. Some (map2 (\<lambda>row vals. map (\<lambda>t. hd vals) row) x sp))
      (gauss_legendre (\<lambda>n. [- sqrt (1 / 3), sqrt (1 / 3)]) (\<lambda>n. [1, 1])) Float64
      [[Fin 1, Fin (- 1), Fin 0], [Fin 0, Fin 1, Fin 2]] [Fin 100]
      [Fin (1 / 100), Fin (2 / 100)] [Fin (1 / 100), Fin (2 / 100)] [Fin (1 / 100), Fin (2 / 100)]
      20 (Fin (1 / 10 ^ 8)) 2 = Some fn) \<and>
   length [Fin 100, Fin 100, Fin 100] \<noteq> 2 \<and> length [Fin 100, Fin 100, Fin 100] \<noteq> 1 \<and>
   (2::nat) \<noteq> 1 \<and>
   exercise_boundary (\<lambda>knots values. Some values)
      (\<lambda>x sp. Some (map2 (\<lambda>row vals. map (\<lambda>t. hd vals) row) x sp))
      (gauss_legendre (\<lambda>n. [- sqrt (1 / 3), sqrt (1 / 3)]) (\<lambda>n. [1, 1])) Float64
      [[Fin 1, Fin (- 1), Fin 0], [Fin 0, Fin 1, Fin 2]] [Fin 100, Fin 100, Fin 100]
      [Fin (1 / 100), Fin (2 / 100)] [Fin (1 / 100), Fin (2 / 100)] [Fin (1 / 100), Fin (2 / 100)]
      20 (Fin (1 / 10 ^ 8)) 2 = None"
proof -
  let ?bs = "\<lambda>knots values :: tensor2. Some values"
  let ?ip = "\<lambda>x sp. Some (map2 (\<lambda>row vals :: fl list. map (\<lambda>t :: fl. hd vals) row) x sp)"
  let ?gl = "gauss_legendre (\<lambda>n. [- sqrt (1 / 3), sqrt (1 / 3)]) (\<lambda>n. [1, 1])"
  have p: "(0::nat) < 2" "(0::nat) < 3"
    by simp_all
  have s: "shape2 [[Fin 1, Fin (- 1), Fin 0], [Fin 0, Fin 1, Fin 2]] 2 3"
    by (simp add: shape2_def)
  have sp: "spline_ok ?bs ?ip 2 3"
    by (rule first_sample_spline_ok) simp
  have g: "quadrature_ok ?gl 2 2 3"
    by (rule gauss_legendre_ok) simp_all
  note th = exercise_boundary_unvalidated [where dtype = Float64 and max_depth = 20
      and tolerance = "Fin (1 / 10 ^ 8)" and r = "[Fin (1 / 100), Fin (2 / 100)]"
      and q = "[Fin (1 / 100), Fin (2 / 100)]" and sigma = "[Fin (1 / 100), Fin (2 / 100)]",
      OF p s sp g]
  have a: "\<exists>fn. exercise_boundary ?bs ?ip ?gl Float64
      [[Fin 1, Fin (- 1), Fin 0], [Fin 0, Fin 1, Fin 2]] [Fin 100]
      [Fin (1 / 100), Fin (2 / 100)] [Fin (1 / 100), Fin (2 / 100)] [Fin (1 / 100), Fin (2 / 100)]
      20 (Fin (1 / 10 ^ 8)) 2 = Some fn"
    using th [of "[Fin 100]"] by simp
  have b: "exercise_boundary ?bs ?ip ?gl Float64
      [[Fin 1, Fin (- 1), Fin 0], [Fin 0, Fin 1, Fin 2]] [Fin 100, Fin 100, Fin 100]
      [Fin (1 / 100), Fin (2 / 100)] [Fin (1 / 100), Fin (2 / 100)] [Fin (1 / 100), Fin (2 / 100)]
      20 (Fin (1 / 10 ^ 8)) 2 = None"
    using th [of "[Fin 100, Fin 100, Fin 100]"] by simp
  show ?thesis
    using p s sp g a b by simp
qed

end
